theory Spec2Isabelle
  imports Main "HOL-Library.AList" "HOL-Library.Char_ord" "HOL-Library.List_Lexorder"
begin

section \<open>Strings\<close>

text \<open>
  JavaScript strings are modelled as \<open>string\<close>: the bytes of the UTF-8 text read from the
  input file. Two strings are equal exactly when their bytes are.
\<close>

text \<open>
  The lower-case mapping of \<open>String.prototype.toLowerCase\<close> follows the Unicode tables of
  the JavaScript engine, which are not part of this repository: the mapping is a parameter
  of the model (the field \<open>toLowerCase\<close> of the configuration below). On ASCII text it is
  \<open>ascii_toLowerCase\<close>, which maps the letters A to Z and nothing else.
\<close>

definition ascii_toLowerChar :: "char \<Rightarrow> char" where
  "ascii_toLowerChar c =
     (let n = (of_char c :: nat) in if 65 \<le> n \<and> n \<le> 90 then char_of (n + 32) else c)"

definition ascii_toLowerCase :: "string \<Rightarrow> string" where
  "ascii_toLowerCase s = map ascii_toLowerChar s"

text \<open>
  The white space of \<open>String.prototype.trim\<close> (WhiteSpace and LineTerminator of the
  language) in UTF-8: the bytes 09 to 0D and 20; C2 A0 (U+00A0); E1 9A 80 (U+1680);
  E2 80 80 to E2 80 8A (U+2000 to U+200A); E2 80 A8, E2 80 A9 (U+2028, U+2029);
  E2 80 AF (U+202F); E2 81 9F (U+205F); E3 80 80 (U+3000); EF BB BF (U+FEFF).
\<close>

definition is_space :: "char \<Rightarrow> bool" where
  "is_space c = ((of_char c :: nat) \<in> {9, 10, 11, 12, 13, 32})"

definition is_space2 :: "char \<Rightarrow> char \<Rightarrow> bool" where
  "is_space2 a b = ((of_char a :: nat) = 0xC2 \<and> (of_char b :: nat) = 0xA0)"

definition is_space3 :: "char \<Rightarrow> char \<Rightarrow> char \<Rightarrow> bool" where
  "is_space3 a b c =
     (let x = (of_char a :: nat); y = (of_char b :: nat); z = (of_char c :: nat)
      in (x = 0xE1 \<and> y = 0x9A \<and> z = 0x80)
         \<or> (x = 0xE2 \<and> y = 0x80
              \<and> ((0x80 \<le> z \<and> z \<le> 0x8A) \<or> z = 0xA8 \<or> z = 0xA9 \<or> z = 0xAF))
         \<or> (x = 0xE2 \<and> y = 0x81 \<and> z = 0x9F)
         \<or> (x = 0xE3 \<and> y = 0x80 \<and> z = 0x80)
         \<or> (x = 0xEF \<and> y = 0xBB \<and> z = 0xBF))"

text \<open>
  White space removed at the front of a string. With \<open>backwards\<close> the string is read from
  its end (it is given reversed), so the bytes of a character come last byte first.
\<close>

fun strip_white :: "bool \<Rightarrow> string \<Rightarrow> string" where
  "strip_white backwards (a # b # c # s) =
     (if is_space a then strip_white backwards (b # c # s)
      else if (if backwards then is_space2 b a else is_space2 a b)
           then strip_white backwards (c # s)
      else if (if backwards then is_space3 c b a else is_space3 a b c)
           then strip_white backwards s
      else a # b # c # s)"
| "strip_white backwards [a, b] =
     (if is_space a then strip_white backwards [b]
      else if (if backwards then is_space2 b a else is_space2 a b) then []
      else [a, b])"
| "strip_white backwards [a] = (if is_space a then [] else [a])"
| "strip_white backwards [] = []"

text \<open>\<open>String.prototype.trim\<close>: white space removed at both ends.\<close>

definition trim :: "string \<Rightarrow> string" where
  "trim s = rev (strip_white True (rev (strip_white False s)))"

text \<open>
  \<open>safeName(s)\<close>: \<open>String(s || '').replace(/[\/\\?%*:|"<> ]+/g, '_')\<close>. Every maximal
  run of characters of the class becomes one underscore.
\<close>

definition unsafe_char :: "char \<Rightarrow> bool" where
  "unsafe_char c = (c \<in> set [CHR ''/'', CHR 0x5C, CHR ''?'', CHR ''%'', CHR ''*'', CHR '':'',
                              CHR ''|'', CHR 0x22, CHR ''<'', CHR ''>'', CHR '' ''])"

fun safeName_run :: "bool \<Rightarrow> string \<Rightarrow> string" where
  "safeName_run in_run [] = []"
| "safeName_run in_run (c # cs) =
     (if unsafe_char c
      then (if in_run then safeName_run True cs else CHR ''_'' # safeName_run True cs)
      else c # safeName_run False cs)"

definition safeName :: "string \<Rightarrow> string" where
  "safeName s = safeName_run False s"

text \<open>\<open>encodeURIComponent\<close> on the bytes of the UTF-8 text: every byte outside the
  unreserved set becomes \<open>%XX\<close> in upper-case hexadecimal. Text decoded from UTF-8 has
  no lone surrogate, so the call does not throw.\<close>

definition uri_unreserved :: "char \<Rightarrow> bool" where
  "uri_unreserved c =
     (c \<in> set (''ABCDEFGHIJKLMNOPQRSTUVWXYZabcdefghijklmnopqrstuvwxyz0123456789-_.!~*()''
               @ [CHR 0x27]))"

definition hex_digit :: "nat \<Rightarrow> char" where
  "hex_digit n = ''0123456789ABCDEF'' ! (n mod 16)"

definition percent_encode :: "char \<Rightarrow> string" where
  "percent_encode c =
     [CHR ''%'', hex_digit ((of_char c :: nat) div 16), hex_digit ((of_char c :: nat) mod 16)]"

definition encodeURIComponent :: "string \<Rightarrow> string" where
  "encodeURIComponent s =
     concat (map (\<lambda>c. if uri_unreserved c then [c] else percent_encode c) s)"

text \<open>\<open>path.join(dir, name)\<close> for a normalised directory and a name without separators.\<close>

definition path_join :: "string \<Rightarrow> string \<Rightarrow> string" where
  "path_join d f = d @ ''/'' @ f"

section \<open>JavaScript values and exceptions\<close>

text \<open>
  The values a parsed response body can hold, with \<open>Undefined\<close> for a missing property.
  An object is the list of its own properties, looked up by key. Numbers are integers here:
  the program only tests them for truthiness.
\<close>

datatype jsval =
    Undefined
  | Null
  | Bool bool
  | Num int
  | Str string
  | Arr "jsval list"
  | Obj "(string \<times> jsval) list"

text \<open>
  What was thrown. \<open>NetworkError m\<close> is a transport failure with message \<open>m\<close>;
  \<open>BadStatus n\<close> is the error axios raises for a response whose status fails
  \<open>validateStatus\<close> (its message is "Request failed with status code n");
  \<open>TypeError\<close> is a failed property read or method call; \<open>IOError\<close> comes from the file
  system, \<open>RenderError\<close> from the headless browser, \<open>ImageError\<close> from the image library.
\<close>

datatype error =
    NetworkError string
  | BadStatus int
  | TypeError string
  | IOError string
  | RenderError string
  | ImageError string

fun truthy :: "jsval \<Rightarrow> bool" where
  "truthy Undefined = False"
| "truthy Null = False"
| "truthy (Bool b) = b"
| "truthy (Num n) = (n \<noteq> 0)"
| "truthy (Str s) = (s \<noteq> [])"
| "truthy (Arr _) = True"
| "truthy (Obj _) = True"

text \<open>
  Property read \<open>v.k\<close> for the keys this program reads (\<open>name\<close>, \<open>user\<close>): it throws on
  \<open>null\<close> and \<open>undefined\<close>, is the own property of an object, and is \<open>undefined\<close> on
  every other value.
\<close>

fun get_prop :: "jsval \<Rightarrow> string \<Rightarrow> error + jsval" where
  "get_prop Undefined k =
     Inl (TypeError (''Cannot read properties of undefined (reading '' @ [CHR 0x27] @ k
                      @ [CHR 0x27] @ '')''))"
| "get_prop Null k =
     Inl (TypeError (''Cannot read properties of null (reading '' @ [CHR 0x27] @ k
                      @ [CHR 0x27] @ '')''))"
| "get_prop (Obj kvs) k = Inr (case map_of kvs k of None \<Rightarrow> Undefined | Some v \<Rightarrow> v)"
| "get_prop _ k = Inr Undefined"

text \<open>\<open>nm.toLowerCase()\<close>: only a string has the method; \<open>lower\<close> is the mapping of the
  engine.\<close>

fun js_toLowerCase :: "(string \<Rightarrow> string) \<Rightarrow> jsval \<Rightarrow> error + string" where
  "js_toLowerCase lower (Str s) = Inr (lower s)"
| "js_toLowerCase lower _ = Inl (TypeError ''nm.toLowerCase is not a function'')"

section \<open>Bitbucket API calls\<close>

text \<open>What a run is given: the working directory, the normalised base URL, and the
  lower-case mapping of the JavaScript engine.\<close>

record config =
  ROOT :: string
  BASE_URL :: string
  toLowerCase :: "string \<Rightarrow> string"

text \<open>What the network does with one request: a response with its status and parsed
  body, or a transport failure with its message.\<close>

datatype http_outcome =
    Response int jsval
  | NetworkFailure string

text \<open>axios: a transport failure rejects; a response rejects when \<open>validateStatus\<close>
  refuses its status.\<close>

definition axios :: "(int \<Rightarrow> bool) \<Rightarrow> http_outcome \<Rightarrow> error + (int \<times> jsval)" where
  "axios validateStatus out =
     (case out of
        NetworkFailure m \<Rightarrow> Inl (NetworkError m)
      | Response st d \<Rightarrow> if validateStatus st then Inr (st, d) else Inl (BadStatus st))"

text \<open>The default \<open>validateStatus\<close> of axios, used by \<open>axios.get\<close> in \<open>verifyAccess\<close>.\<close>

definition default_validateStatus :: "int \<Rightarrow> bool" where
  "default_validateStatus st = (200 \<le> st \<and> st < 300)"

text \<open>
  The result objects of \<open>revokeAccess\<close> and \<open>verifyAccess\<close>. A property the object does
  not have is \<open>None\<close> (\<open>Undefined\<close> for \<open>raw\<close>); \<open>status = None\<close> is also the
  \<open>status: null\<close> of a failed revoke.
\<close>

record api_result =
  ok :: bool
  status :: "int option"
  hasAccess :: "bool option"
  raw :: jsval
  error :: "error option"
  url :: string

definition revoke_url :: "config \<Rightarrow> string \<Rightarrow> string \<Rightarrow> string" where
  "revoke_url cfg projectKey username =
     BASE_URL cfg @ ''/rest/api/1.0/projects/'' @ encodeURIComponent projectKey
       @ ''/permissions/users?name='' @ encodeURIComponent username"

definition verify_url :: "config \<Rightarrow> string \<Rightarrow> string \<Rightarrow> string" where
  "verify_url cfg projectKey username =
     BASE_URL cfg @ ''/rest/api/1.0/projects/'' @ encodeURIComponent projectKey
       @ ''/permissions/users?filter='' @ encodeURIComponent username"

text \<open>\<open>try { body } catch (err) { handler(err) }\<close> for a body without side effects.\<close>

definition try_catch :: "error + 'a \<Rightarrow> (error \<Rightarrow> error + 'a) \<Rightarrow> error + 'a" where
  "try_catch body handler = (case body of Inl err \<Rightarrow> handler err | Inr v \<Rightarrow> Inr v)"

text \<open>\<open>revokeAccess\<close>: the request is made with \<open>validateStatus: () => true\<close>.\<close>

definition revokeAccess :: "config \<Rightarrow> http_outcome \<Rightarrow> string \<Rightarrow> string \<Rightarrow> error + api_result" where
  "revokeAccess cfg out projectKey username =
     (let u = revoke_url cfg projectKey username in
      try_catch
        (case axios (\<lambda>_. True) out of
           Inl err \<Rightarrow> Inl err
         | Inr (st, d) \<Rightarrow>
             Inr \<lparr>ok = (st = 204), status = Some st, hasAccess = None, raw = Undefined,
                  error = None, url = u\<rparr>)
        (\<lambda>err. Inr \<lparr>ok = False, status = None, hasAccess = None, raw = Undefined,
                     error = Some err, url = u\<rparr>))"

text \<open>The callback of \<open>values.some\<close>:
  \<open>nm = v.name || (v.user && v.user.name) || ""\<close>, then
  \<open>nm.toLowerCase() === username.toLowerCase()\<close>.\<close>

definition entry_nm :: "jsval \<Rightarrow> error + jsval" where
  "entry_nm v =
     (case get_prop v ''name'' of
        Inl err \<Rightarrow> Inl err
      | Inr flat \<Rightarrow>
          if truthy flat then Inr flat
          else (case get_prop v ''user'' of
                  Inl err \<Rightarrow> Inl err
                | Inr usr \<Rightarrow>
                    if \<not> truthy usr then Inr (Str [])
                    else (case get_prop usr ''name'' of
                            Inl err \<Rightarrow> Inl err
                          | Inr nested \<Rightarrow> if truthy nested then Inr nested else Inr (Str []))))"

definition entry_matches :: "config \<Rightarrow> string \<Rightarrow> jsval \<Rightarrow> error + bool" where
  "entry_matches cfg username v =
     (case entry_nm v of
        Inl err \<Rightarrow> Inl err
      | Inr nm \<Rightarrow>
          (case js_toLowerCase (toLowerCase cfg) nm of
             Inl err \<Rightarrow> Inl err
           | Inr low \<Rightarrow> Inr (low = toLowerCase cfg username)))"

text \<open>\<open>Array.prototype.some\<close>: the callback runs on the entries in order and the scan
  ends at the first entry for which it returns true, or where it throws.\<close>

fun some_matches :: "config \<Rightarrow> string \<Rightarrow> jsval list \<Rightarrow> error + bool" where
  "some_matches cfg username [] = Inr False"
| "some_matches cfg username (v # vs) =
     (case entry_matches cfg username v of
        Inl err \<Rightarrow> Inl err
      | Inr True \<Rightarrow> Inr True
      | Inr False \<Rightarrow> some_matches cfg username vs)"

text \<open>\<open>resp.data && Array.isArray(resp.data.values)\<close>: the list scanned, if any.\<close>

fun values_array :: "jsval \<Rightarrow> jsval list option" where
  "values_array (Obj kvs) = (case map_of kvs ''values'' of Some (Arr vs) \<Rightarrow> Some vs | _ \<Rightarrow> None)"
| "values_array _ = None"

definition scan_hasAccess :: "config \<Rightarrow> string \<Rightarrow> jsval \<Rightarrow> error + bool" where
  "scan_hasAccess cfg username d =
     (case values_array d of None \<Rightarrow> Inr False | Some vs \<Rightarrow> some_matches cfg username vs)"

definition verifyAccess :: "config \<Rightarrow> http_outcome \<Rightarrow> string \<Rightarrow> string \<Rightarrow> error + api_result" where
  "verifyAccess cfg out projectKey username =
     (let u = verify_url cfg projectKey username in
      try_catch
        (case axios default_validateStatus out of
           Inl err \<Rightarrow> Inl err
         | Inr (st, d) \<Rightarrow>
             (case scan_hasAccess cfg username d of
                Inl err \<Rightarrow> Inl err
              | Inr h \<Rightarrow>
                  Inr \<lparr>ok = True, status = Some st, hasAccess = Some h, raw = d,
                       error = None, url = u\<rparr>))
        (\<lambda>err. Inr \<lparr>ok = False, status = None, hasAccess = None, raw = Undefined,
                     error = Some err, url = u\<rparr>))"

text \<open>How the program reads \<open>verifyRes.hasAccess\<close>: as a condition, so a missing property
  counts as false.\<close>

definition stillHasAccess :: "api_result \<Rightarrow> bool" where
  "stillHasAccess r = (hasAccess r = Some True)"

section \<open>Output locations\<close>

definition INPUT_DIR :: "config \<Rightarrow> string" where
  "INPUT_DIR cfg = path_join (ROOT cfg) ''input_files''"

definition OUTPUT_DIR :: "config \<Rightarrow> string" where
  "OUTPUT_DIR cfg = path_join (ROOT cfg) ''output_files''"

definition HTML_DIR :: "config \<Rightarrow> string" where
  "HTML_DIR cfg = path_join (OUTPUT_DIR cfg) ''html''"

definition PNG_DIR :: "config \<Rightarrow> string" where
  "PNG_DIR cfg = path_join (OUTPUT_DIR cfg) ''png''"

definition HAS_ACCESS_PNG_DIR :: "config \<Rightarrow> string" where
  "HAS_ACCESS_PNG_DIR cfg = path_join (PNG_DIR cfg) ''has_access''"

definition NO_ACCESS_PNG_DIR :: "config \<Rightarrow> string" where
  "NO_ACCESS_PNG_DIR cfg = path_join (PNG_DIR cfg) ''no_access''"

definition DOC_DIR :: "config \<Rightarrow> string" where
  "DOC_DIR cfg = path_join (OUTPUT_DIR cfg) ''doc''"

definition INPUT_CSV_PATH :: "config \<Rightarrow> string" where
  "INPUT_CSV_PATH cfg = path_join (INPUT_DIR cfg) ''access_check_results.csv''"

definition ACCESS_OUTPUT_CSV :: "config \<Rightarrow> string" where
  "ACCESS_OUTPUT_CSV cfg = path_join (OUTPUT_DIR cfg) ''access_check_results_after_revoke.csv''"

definition NO_ACCESS_OUTPUT_CSV :: "config \<Rightarrow> string" where
  "NO_ACCESS_OUTPUT_CSV cfg =
     path_join (OUTPUT_DIR cfg) ''no_access_check_results_after_revoke.csv''"

section \<open>Capture geometry\<close>

text \<open>
  The rectangle measured in the page. A width or height that is not a usable number
  (\<open>undefined\<close>, \<open>NaN\<close>) is \<open>None\<close>; \<open>rect.width || 1280\<close> replaces it, and zero, by the
  default.
\<close>

record rect =
  rect_x :: int
  rect_y :: int
  rect_width :: "int option"
  rect_height :: "int option"

record clip =
  clipX :: int
  clipY :: int
  clipW :: int
  clipH :: int

record viewport =
  vp_width :: int
  vp_height :: int

definition MAX_DIM :: int where
  "MAX_DIM = 16384"

definition or_default :: "int option \<Rightarrow> int \<Rightarrow> int" where
  "or_default v d = (case v of None \<Rightarrow> d | Some n \<Rightarrow> if n = 0 then d else n)"

definition clip_region :: "rect \<Rightarrow> clip" where
  "clip_region r =
     \<lparr>clipX = max 0 (rect_x r),
      clipY = max 0 (rect_y r),
      clipW = min (or_default (rect_width r) 1280) MAX_DIM,
      clipH = min (or_default (rect_height r) 900) MAX_DIM\<rparr>"

definition viewport_for :: "clip \<Rightarrow> viewport" where
  "viewport_for c =
     \<lparr>vp_width = max (clipX c + clipW c) 1280, vp_height = max (clipY c + clipH c) 900\<rparr>"

section \<open>The world the program acts on\<close>

text \<open>
  The files (with their contents), the browsers that are open, the calls made to the
  headless browser and the console. Directories and their creation (\<open>ensureDir\<close>) are not
  part of the model, nor is the start-up check of the configuration: a run starts at
  \<open>main\<close> with a configuration that passed it.
\<close>

type_synonym image = "nat list"

text \<open>What is serialised into the evidence page: \<open>verifyRes.raw || verifyRes\<close>.\<close>

datatype api_response =
    Payload jsval
  | ResultObject api_result

text \<open>
  File contents. A markup file is kept as the values its template embeds (user, account id,
  project, time stamp, API URL, API response); a text file as its lines; a document as its
  title, its generation time stamp and the images on its pages.
\<close>

datatype content =
    Markup string string string string string api_response
  | Png image
  | Lines "string list"
  | Docx string string "string list"

datatype shot = Clip clip | FullPage

text \<open>The calls made to the headless browser, in order.\<close>

datatype call =
    Launch
  | NewPage
  | Goto string
  | Evaluate
  | SetViewport viewport
  | Screenshot string shot
  | Close

datatype log =
    LogReading string
  | LogCsvNotFound string
  | LogSkipping string
  | LogRevoking string string
  | LogRevoke "int option" bool
  | LogVerify "int option" bool
  | LogDocxCreated string
  | LogDone string
  | LogFatal error

record world =
  files :: "(string \<times> content) list"
  open_browsers :: nat
  calls :: "call list"
  console :: "log list"

text \<open>A step of the program: it returns a value or throws, and leaves a world.\<close>

type_synonym 'a prog = "world \<Rightarrow> (error + 'a) \<times> world"

definition ret :: "'a \<Rightarrow> 'a prog" where
  "ret v w = (Inr v, w)"

definition throw :: "error \<Rightarrow> 'a prog" where
  "throw e w = (Inl e, w)"

definition lift :: "error + 'a \<Rightarrow> 'a prog" where
  "lift r w = (r, w)"

definition andThen :: "'a prog \<Rightarrow> ('a \<Rightarrow> 'b prog) \<Rightarrow> 'b prog" where
  "andThen m f w = (case m w of (Inl e, w') \<Rightarrow> (Inl e, w') | (Inr v, w') \<Rightarrow> f v w')"

definition catch :: "'a prog \<Rightarrow> (error \<Rightarrow> 'a prog) \<Rightarrow> 'a prog" where
  "catch m handler w = (case m w of (Inl e, w') \<Rightarrow> handler e w' | (Inr v, w') \<Rightarrow> (Inr v, w'))"

definition console_log :: "log \<Rightarrow> unit prog" where
  "console_log l w = (Inr (), w\<lparr>console := console w @ [l]\<rparr>)"

subsection \<open>File system\<close>

text \<open>Each call carries whether the file system lets it succeed.\<close>

definition writeFileSync :: "bool \<Rightarrow> string \<Rightarrow> content \<Rightarrow> unit prog" where
  "writeFileSync succeeds p c w =
     (if succeeds then (Inr (), w\<lparr>files := AList.update p c (files w)\<rparr>)
      else (Inl (IOError p), w))"

definition appendFileSync :: "bool \<Rightarrow> string \<Rightarrow> string \<Rightarrow> unit prog" where
  "appendFileSync succeeds p line w =
     (if succeeds
      then (Inr (),
            w\<lparr>files := AList.update p
                  (case map_of (files w) p of Some (Lines ls) \<Rightarrow> Lines (ls @ [line])
                   | _ \<Rightarrow> Lines [line])
                  (files w)\<rparr>)
      else (Inl (IOError p), w))"

definition unlinkSync :: "bool \<Rightarrow> string \<Rightarrow> unit prog" where
  "unlinkSync succeeds p w =
     (if succeeds \<and> map_of (files w) p \<noteq> None
      then (Inr (), w\<lparr>files := AList.delete p (files w)\<rparr>)
      else (Inl (IOError p), w))"

definition renameSync :: "bool \<Rightarrow> string \<Rightarrow> string \<Rightarrow> unit prog" where
  "renameSync succeeds src dst w =
     (case map_of (files w) src of
        None \<Rightarrow> (Inl (IOError src), w)
      | Some c \<Rightarrow>
          if succeeds
          then (Inr (), w\<lparr>files := AList.update dst c (AList.delete src (files w))\<rparr>)
          else (Inl (IOError src), w))"

subsection \<open>Headless browser and image library\<close>

definition puppeteer_launch :: "bool \<Rightarrow> unit prog" where
  "puppeteer_launch succeeds w =
     (if succeeds
      then (Inr (), w\<lparr>open_browsers := Suc (open_browsers w), calls := calls w @ [Launch]\<rparr>)
      else (Inl (RenderError ''launch''), w))"

definition browser_newPage :: "bool \<Rightarrow> unit prog" where
  "browser_newPage succeeds w =
     (if succeeds then (Inr (), w\<lparr>calls := calls w @ [NewPage]\<rparr>)
      else (Inl (RenderError ''newPage''), w))"

definition page_goto :: "bool \<Rightarrow> string \<Rightarrow> unit prog" where
  "page_goto succeeds target w =
     (if succeeds then (Inr (), w\<lparr>calls := calls w @ [Goto target]\<rparr>)
      else (Inl (RenderError ''goto''), w))"

definition page_evaluate :: "rect option \<Rightarrow> rect prog" where
  "page_evaluate measured w =
     (case measured of
        Some r \<Rightarrow> (Inr r, w\<lparr>calls := calls w @ [Evaluate]\<rparr>)
      | None \<Rightarrow> (Inl (RenderError ''evaluate''), w))"

definition page_setViewport :: "bool \<Rightarrow> viewport \<Rightarrow> unit prog" where
  "page_setViewport succeeds vp w =
     (if succeeds then (Inr (), w\<lparr>calls := calls w @ [SetViewport vp]\<rparr>)
      else (Inl (RenderError ''setViewport''), w))"

text \<open>\<open>page.screenshot({ path, ... })\<close>: the capture is written to \<open>path\<close>, or the call
  throws.\<close>

definition page_screenshot :: "image option \<Rightarrow> string \<Rightarrow> shot \<Rightarrow> unit prog" where
  "page_screenshot captured p sh w =
     (case captured of
        Some img \<Rightarrow>
          (Inr (), w\<lparr>files := AList.update p (Png img) (files w),
                      calls := calls w @ [Screenshot p sh]\<rparr>)
      | None \<Rightarrow> (Inl (RenderError ''screenshot''), w))"

definition browser_close :: "bool \<Rightarrow> unit prog" where
  "browser_close succeeds w =
     (if succeeds
      then (Inr (), w\<lparr>open_browsers := open_browsers w - 1, calls := calls w @ [Close]\<rparr>)
      else (Inl (RenderError ''close''), w))"

text \<open>\<open>sharp(src).trim().toFile(dst)\<close>: the image at \<open>src\<close> is read and trimmed, and the
  result written to \<open>dst\<close>; it throws when there is no image to read or the trim fails.\<close>

definition sharp_trim_toFile :: "(image \<Rightarrow> image option) \<Rightarrow> string \<Rightarrow> string \<Rightarrow> unit prog" where
  "sharp_trim_toFile trimmed src dst w =
     (case map_of (files w) src of
        Some (Png img) \<Rightarrow>
          (case trimmed img of
             Some t \<Rightarrow> (Inr (), w\<lparr>files := AList.update dst (Png t) (files w)\<rparr>)
           | None \<Rightarrow> (Inl (ImageError src), w))
      | _ \<Rightarrow> (Inl (ImageError src), w))"

section \<open>HTML and PNG evidence\<close>

text \<open>
  What the surroundings do during one run of \<open>createEvidence\<close>: the two clock readings
  (\<open>formatSafeTs()\<close> for the file name, \<open>formatTs()\<close> in the page), and for every call that
  can throw, whether it succeeds and with what.
\<close>

record render_env =
  stamp :: string
  page_ts :: string
  writeFileSync_ok :: bool
  launch_ok :: bool
  newPage_ok :: bool
  goto_ok :: bool
  evaluate_result :: "rect option"
  setViewport_ok :: bool
  clip_screenshot :: "image option"
  fullPage_screenshot :: "image option"
  trim_result :: "image \<Rightarrow> image option"
  unlinkSync_ok :: bool
  renameSync_ok :: bool
  close_ok :: bool

record evidence =
  htmlFile :: string
  pngFile :: string

text \<open>Lines 192 to 197: the capture of the clip region, with the full page as fallback.\<close>

definition capture :: "render_env \<Rightarrow> string \<Rightarrow> clip \<Rightarrow> unit prog" where
  "capture env tmpPng c =
     catch (page_screenshot (clip_screenshot env) tmpPng (Clip c))
           (\<lambda>e. page_screenshot (fullPage_screenshot env) tmpPng FullPage)"

text \<open>Lines 199 to 206: the trim of the raw capture, with the raw capture as fallback.\<close>

definition trim_capture :: "render_env \<Rightarrow> string \<Rightarrow> string \<Rightarrow> unit prog" where
  "trim_capture env tmpPng dest =
     catch (andThen (sharp_trim_toFile (trim_result env) tmpPng dest)
                    (\<lambda>_. unlinkSync (unlinkSync_ok env) tmpPng))
           (\<lambda>e. catch (renameSync (renameSync_ok env) tmpPng dest) (\<lambda>_. ret ()))"

definition evidence_html_path :: "config \<Rightarrow> render_env \<Rightarrow> string \<Rightarrow> string \<Rightarrow> string" where
  "evidence_html_path cfg env usr projectKey =
     path_join (HTML_DIR cfg)
       (safeName usr @ ''_'' @ safeName projectKey @ ''_'' @ stamp env @ ''.html'')"

definition createEvidence ::
  "config \<Rightarrow> render_env \<Rightarrow> string \<Rightarrow> string \<Rightarrow> string \<Rightarrow> string \<Rightarrow> api_response \<Rightarrow> string
     \<Rightarrow> evidence prog" where
  "createEvidence cfg env usr accId projectKey apiUrl apiResponse dest =
     (let html = evidence_html_path cfg env usr projectKey;
          tmpPng = dest @ ''.tmp.png''
      in
      andThen (writeFileSync (writeFileSync_ok env) html
                 (Markup usr accId projectKey (page_ts env) apiUrl apiResponse)) (\<lambda>_.
      andThen (puppeteer_launch (launch_ok env)) (\<lambda>_.
      andThen (browser_newPage (newPage_ok env)) (\<lambda>_.
      andThen (page_goto (goto_ok env) (''file://'' @ html)) (\<lambda>_.
      andThen (page_evaluate (evaluate_result env)) (\<lambda>measured.
      andThen (page_setViewport (setViewport_ok env) (viewport_for (clip_region measured))) (\<lambda>_.
      andThen (capture env tmpPng (clip_region measured)) (\<lambda>_.
      andThen (trim_capture env tmpPng dest) (\<lambda>_.
      andThen (browser_close (close_ok env)) (\<lambda>_.
      ret \<lparr>htmlFile = html, pngFile = dest\<rparr>))))))))))"

section \<open>DOCX generator\<close>

record docx_env =
  docx_ts :: string
  addImage_ok :: "string \<Rightarrow> bool"
  generate_ok :: bool

definition endsWith :: "string \<Rightarrow> string \<Rightarrow> bool" where
  "endsWith s suffix =
     (length suffix \<le> length s \<and> drop (length s - length suffix) s = suffix)"

text \<open>The name of \<open>p\<close> inside the directory \<open>dir\<close>, when \<open>p\<close> lies directly in it.\<close>

definition child_name :: "string \<Rightarrow> string \<Rightarrow> string option" where
  "child_name dir p =
     (let pre = dir @ ''/''; name = drop (length pre) p
      in if take (length pre) p = pre \<and> name \<noteq> [] \<and> CHR ''/'' \<notin> set name then Some name
         else None)"

text \<open>\<open>fs.readdirSync\<close>: the names in the directory, sorted.\<close>

definition readdirSync :: "string \<Rightarrow> world \<Rightarrow> string list" where
  "readdirSync dir w = sort (List.map_filter (child_name dir) (map fst (files w)))"

text \<open>\<open>docName.replace('.docx', '')\<close>: the first occurrence is removed.\<close>

fun remove_first :: "string \<Rightarrow> string \<Rightarrow> string" where
  "remove_first pat [] = []"
| "remove_first pat (c # cs) =
     (if take (length pat) (c # cs) = pat then drop (length pat) (c # cs)
      else c # remove_first pat cs)"

text \<open>
  \<open>createDocx\<close>: nothing is done for a directory without images. A failure to add one
  image is caught inside the loop (the image is then left out); a failure to write the
  document rejects and is thrown to the caller.
\<close>

definition createDocx :: "config \<Rightarrow> docx_env \<Rightarrow> string \<Rightarrow> string \<Rightarrow> unit prog" where
  "createDocx cfg env dirPath docName w =
     (let imgs = filter (\<lambda>f. endsWith f ''.png'') (readdirSync dirPath w)
      in if imgs = [] then (Inr (), w)
         else
           (let outPath = path_join (DOC_DIR cfg) docName;
                pages = filter (\<lambda>img. addImage_ok env (path_join dirPath img)) imgs
            in andThen (writeFileSync (generate_ok env) outPath
                          (Docx (remove_first ''.docx'' docName) (docx_ts env) pages))
                       (\<lambda>_. console_log (LogDocxCreated outPath)) w))"

section \<open>Main workflow\<close>

type_synonym row = "(string \<times> string) list"

text \<open>\<open>(row[k] || '').trim()\<close>\<close>

definition column :: "row \<Rightarrow> string \<Rightarrow> string" where
  "column r k = trim (case map_of r k of None \<Rightarrow> [] | Some s \<Rightarrow> s)"

fun csv_line :: "string list \<Rightarrow> string" where
  "csv_line [] = []"
| "csv_line [f] = f"
| "csv_line (f # fs) = f @ '','' @ csv_line fs"

declare csv_line.simps [simp del]

text \<open>
  What the surroundings do while one record is processed: the outcome of the two requests,
  the two clock readings of \<open>main\<close>, the renderer, and whether the append succeeds.
\<close>

record record_env =
  revoke_http :: http_outcome
  verify_http :: http_outcome
  main_ts :: string
  main_safeTs :: string
  renderer :: render_env
  appendFileSync_ok :: bool

definition evidence_png_path :: "config \<Rightarrow> record_env \<Rightarrow> api_result \<Rightarrow> string \<Rightarrow> string \<Rightarrow> string" where
  "evidence_png_path cfg env verifyRes usr project =
     (let name = safeName usr @ ''_'' @ safeName project @ ''_'' @ main_safeTs env @ ''.png''
      in if stillHasAccess verifyRes then path_join (HAS_ACCESS_PNG_DIR cfg) name
         else path_join (NO_ACCESS_PNG_DIR cfg) name)"

text \<open>The body of the loop over the rows (lines 298 to 347).\<close>

definition process_row :: "config \<Rightarrow> row \<Rightarrow> record_env \<Rightarrow> unit prog" where
  "process_row cfg r env =
     (let usr = column r ''Username'';
          accId = column r ''Account ID'';
          project = column r ''Project Key'';
          permission = column r ''Access Permission'';
          st = column r ''Access Status''
      in if usr = [] \<or> project = [] then ret ()
         else if st \<noteq> ''HAS_ACCESS'' then console_log (LogSkipping usr)
         else
           andThen (console_log (LogRevoking usr project)) (\<lambda>_.
           andThen (lift (revokeAccess cfg (revoke_http env) project usr)) (\<lambda>revokeRes.
           andThen (console_log (LogRevoke (status revokeRes) (ok revokeRes))) (\<lambda>_.
           andThen (lift (verifyAccess cfg (verify_http env) project usr)) (\<lambda>verifyRes.
           andThen (console_log (LogVerify (status verifyRes) (stillHasAccess verifyRes))) (\<lambda>_.
           andThen (createEvidence cfg (renderer env) usr accId project (url verifyRes)
                      (if truthy (raw verifyRes) then Payload (raw verifyRes)
                       else ResultObject verifyRes)
                      (evidence_png_path cfg env verifyRes usr project)) (\<lambda>ev.
           if stillHasAccess verifyRes
           then appendFileSync (appendFileSync_ok env) (ACCESS_OUTPUT_CSV cfg)
                  (csv_line [usr, accId, project, permission, ''HAS_ACCESS'', main_ts env,
                             pngFile ev])
           else appendFileSync (appendFileSync_ok env) (NO_ACCESS_OUTPUT_CSV cfg)
                  (csv_line [usr, accId, project, permission, ''NO_ACCESS'', main_ts env,
                             pngFile ev]))))))))"

fun process_rows :: "config \<Rightarrow> (row \<times> record_env) list \<Rightarrow> unit prog" where
  "process_rows cfg [] = ret ()"
| "process_rows cfg ((r, env) # rest) =
     andThen (process_row cfg r env) (\<lambda>_. process_rows cfg rest)"

text \<open>
  The input file: missing, unreadable (reading or parsing throws), or parsed into rows.
  Each row comes with what the surroundings do if it is processed.
\<close>

datatype input =
    CsvMissing
  | CsvUnreadable
  | CsvRows "(row \<times> record_env) list"

record run_env =
  input_csv :: input
  headers_ok :: bool
  has_access_docx :: docx_env
  no_access_docx :: docx_env

definition csv_header :: string where
  "csv_header =
     ''Username,Account ID,Project Key,Access Permission,Access Status,Timestamp,Screenshot''"

text \<open>Lines 291 to 296: the two output files start with the header line.\<close>

definition write_headers :: "config \<Rightarrow> run_env \<Rightarrow> unit prog" where
  "write_headers cfg env =
     andThen (writeFileSync (headers_ok env) (ACCESS_OUTPUT_CSV cfg) (Lines [csv_header])) (\<lambda>_.
     writeFileSync (headers_ok env) (NO_ACCESS_OUTPUT_CSV cfg) (Lines [csv_header]))"

text \<open>Lines 349 to 351: the two reports, one after the other.\<close>

definition generate_reports :: "config \<Rightarrow> run_env \<Rightarrow> unit prog" where
  "generate_reports cfg env =
     andThen (createDocx cfg (has_access_docx env) (HAS_ACCESS_PNG_DIR cfg)
                ''Bitbucket_Has_Access_Report.docx'') (\<lambda>_.
     createDocx cfg (no_access_docx env) (NO_ACCESS_PNG_DIR cfg)
       ''Bitbucket_No_Access_Report.docx'')"

text \<open>The body of the \<open>try\<close> of \<open>main\<close>, from the read of the input file on.\<close>

definition run_batch :: "config \<Rightarrow> run_env \<Rightarrow> (row \<times> record_env) list \<Rightarrow> unit prog" where
  "run_batch cfg env rows =
     andThen (write_headers cfg env) (\<lambda>_.
     andThen (process_rows cfg rows) (\<lambda>_.
     generate_reports cfg env))"

text \<open>\<open>main\<close>: the exit code of the process and the world it leaves.\<close>

definition main :: "config \<Rightarrow> run_env \<Rightarrow> world \<Rightarrow> int \<times> world" where
  "main cfg env w =
     (let w1 = w\<lparr>console := console w @ [LogReading (INPUT_CSV_PATH cfg)]\<rparr>
      in case input_csv env of
           CsvMissing \<Rightarrow>
             (1, w1\<lparr>console := console w1 @ [LogCsvNotFound (INPUT_CSV_PATH cfg)]\<rparr>)
         | CsvUnreadable \<Rightarrow>
             (2, w1\<lparr>console := console w1 @ [LogFatal (IOError (INPUT_CSV_PATH cfg))]\<rparr>)
         | CsvRows rows \<Rightarrow>
             (case run_batch cfg env rows w1 of
                (Inl err, w2) \<Rightarrow> (2, w2\<lparr>console := console w2 @ [LogFatal err]\<rparr>)
              | (Inr _, w2) \<Rightarrow> (0, w2\<lparr>console := console w2 @ [LogDone (OUTPUT_DIR cfg)]\<rparr>)))"

section \<open>The specification's reading of a principal list\<close>

text \<open>
  These definitions follow the words of the specification, to be compared with the scan of
  \<open>verifyAccess\<close>: an entry's principal name is its flat \<open>name\<close> field or, failing that,
  its nested \<open>user.name\<close> field; two names are equal without regard to case when the
  engine maps them to the same lower-case form; an entry matches a user name when it has a
  principal name equal to it without regard to case.
\<close>

definition field :: "jsval \<Rightarrow> string \<Rightarrow> jsval" where
  "field v k = (case v of Obj kvs \<Rightarrow> (case map_of kvs k of Some x \<Rightarrow> x | None \<Rightarrow> Undefined) | _ \<Rightarrow> Undefined)"

definition spec_principal_name :: "jsval \<Rightarrow> string option" where
  "spec_principal_name v =
     (let nested = (case field (field v ''user'') ''name'' of Str s \<Rightarrow> Some s | _ \<Rightarrow> None)
      in case field v ''name'' of
           Str s \<Rightarrow> if s \<noteq> [] then Some s else nested
         | _ \<Rightarrow> nested)"

definition spec_ci_equal :: "config \<Rightarrow> string \<Rightarrow> string \<Rightarrow> bool" where
  "spec_ci_equal cfg a b = (toLowerCase cfg a = toLowerCase cfg b)"

definition spec_entry_matches :: "config \<Rightarrow> string \<Rightarrow> jsval \<Rightarrow> bool" where
  "spec_entry_matches cfg username v =
     (case spec_principal_name v of None \<Rightarrow> False | Some n \<Rightarrow> spec_ci_equal cfg n username)"

text \<open>
  An entry that cannot be read as a principal: \<open>null\<close> (or nothing at all), or an entry
  whose name in use (the flat name when it is truthy, the nested name otherwise) is truthy
  and not a string.
\<close>

fun is_string :: "jsval \<Rightarrow> bool" where
  "is_string (Str s) = True"
| "is_string _ = False"

definition spec_unreadable_entry :: "jsval \<Rightarrow> bool" where
  "spec_unreadable_entry v =
     (v = Null \<or> v = Undefined
      \<or> (truthy (field v ''name'') \<and> \<not> is_string (field v ''name''))
      \<or> (\<not> truthy (field v ''name'') \<and> truthy (field (field v ''user'') ''name'')
          \<and> \<not> is_string (field (field v ''user'') ''name'')))"

text \<open>
  Equality without regard to case on ASCII text, said without any lower-case mapping: the
  two strings have the same length and, position by position, the same character or the
  upper-case and lower-case form of one letter.
\<close>

definition is_ascii :: "char \<Rightarrow> bool" where
  "is_ascii c = ((of_char c :: nat) < 128)"

definition ascii_upper :: "char \<Rightarrow> bool" where
  "ascii_upper c = (65 \<le> (of_char c :: nat) \<and> (of_char c :: nat) \<le> 90)"

definition spec_same_letter :: "char \<Rightarrow> char \<Rightarrow> bool" where
  "spec_same_letter c d =
     (c = d \<or> (ascii_upper c \<and> (of_char d :: nat) = of_char c + 32)
            \<or> (ascii_upper d \<and> (of_char c :: nat) = of_char d + 32))"

definition spec_ascii_ci_equal :: "string \<Rightarrow> string \<Rightarrow> bool" where
  "spec_ascii_ci_equal a b = list_all2 spec_same_letter a b"

text \<open>
  What is used of \<open>String.prototype.toLowerCase\<close>: only the empty string has an empty
  lower-case form, and on ASCII text the mapping is \<open>ascii_toLowerCase\<close>.
\<close>

definition js_case_mapping :: "(string \<Rightarrow> string) \<Rightarrow> bool" where
  "js_case_mapping lower =
     ((\<forall>s. (lower s = []) = (s = []))
      \<and> (\<forall>s. list_all is_ascii s \<longrightarrow> lower s = ascii_toLowerCase s))"

section \<open>Observations on a run\<close>

text \<open>The raw capture a run of the renderer gets: the clip capture, or the full page when
  the clip capture throws.\<close>

definition raw_capture :: "render_env \<Rightarrow> image option" where
  "raw_capture env =
     (case clip_screenshot env of Some img \<Rightarrow> Some img | None \<Rightarrow> fullPage_screenshot env)"

text \<open>The renderer returns normally exactly when no call outside its two guarded blocks
  throws.\<close>

definition normal_return :: "render_env \<Rightarrow> bool" where
  "normal_return env =
     (writeFileSync_ok env \<and> launch_ok env \<and> newPage_ok env \<and> goto_ok env
      \<and> evaluate_result env \<noteq> None \<and> setViewport_ok env
      \<and> raw_capture env \<noteq> None \<and> close_ok env)"


text \<open>Two worlds that differ at most in the console; a step that cannot tell them apart.\<close>

definition same_effects :: "world \<Rightarrow> world \<Rightarrow> bool" where
  "same_effects w1 w2 =
     (files w1 = files w2 \<and> open_browsers w1 = open_browsers w2 \<and> calls w1 = calls w2)"


section \<open>Example inputs\<close>

text \<open>
  A configuration, rows, surroundings and worlds on which the properties below are
  exercised. In \<open>example_render_env\<close> the clip capture throws and the trim throws, so a
  run goes through both fallbacks.
\<close>

definition example_cfg :: config where
  "example_cfg =
     \<lparr>ROOT = ''/work'', BASE_URL = ''http://bitbucket.example:7990'',
      toLowerCase = ascii_toLowerCase\<rparr>"

definition example_payload :: jsval where
  "example_payload =
     Obj [(''values'', Arr [Obj [(''name'', Str ''Other'')],
                            Obj [(''user'', Obj [(''name'', Str ''JSmith'')])], Null])]"

definition null_first_payload :: jsval where
  "null_first_payload = Obj [(''values'', Arr [Null, Obj [(''name'', Str ''jdoe'')]])]"



definition example_render_env :: render_env where
  "example_render_env =
     \<lparr>stamp = ''2024-01-02_03-04-05'', page_ts = ''2024-01-02 03:04:05'',
      writeFileSync_ok = True, launch_ok = True, newPage_ok = True, goto_ok = True,
      evaluate_result = Some \<lparr>rect_x = 0, rect_y = 0, rect_width = Some 800, rect_height = Some 0\<rparr>,
      setViewport_ok = True, clip_screenshot = None, fullPage_screenshot = Some [7, 7, 1, 2, 7],
      trim_result = (\<lambda>img. None), unlinkSync_ok = True, renameSync_ok = True,
      close_ok = True\<rparr>"


definition empty_world :: world where
  "empty_world = \<lparr>files = [], open_browsers = 0, calls = [], console = []\<rparr>"

definition wide_rect :: rect where
  "wide_rect = \<lparr>rect_x = 8, rect_y = - 3, rect_width = Some 20000, rect_height = Some 0\<rparr>"

definition measured_rect :: rect where
  "measured_rect = \<lparr>rect_x = 8, rect_y = 40, rect_width = Some 800, rect_height = Some 300\<rparr>"

definition clip_render_env :: render_env where
  "clip_render_env =
     example_render_env\<lparr>evaluate_result := Some wide_rect, clip_screenshot := Some [5, 6]\<rparr>"

definition captured_world :: world where
  "captured_world =
     \<lparr>files = [(''/work/a.png.tmp.png'', Png [7, 7, 1, 2, 7])], open_browsers = 1,
      calls = [], console = []\<rparr>"




definition leftover_world :: world where
  "leftover_world =
     \<lparr>files = [(''/work/output_files/png/has_access/old_PROJ1_2023-12-31_23-59-59.png'', Png [1, 2]),
               (''/work/output_files/png/no_access/old_PROJ2_2023-12-31_23-59-59.png'', Png [3])],
      open_browsers = 0, calls = [], console = []\<rparr>"

definition example_docx_env :: docx_env where
  "example_docx_env =
     \<lparr>docx_ts = ''2024-01-02 03:04:06'', addImage_ok = (\<lambda>p. True), generate_ok = True\<rparr>"

definition failing_report_env :: run_env where
  "failing_report_env =
     \<lparr>input_csv = CsvRows [], headers_ok = True,
      has_access_docx = example_docx_env\<lparr>generate_ok := False\<rparr>,
      no_access_docx = example_docx_env\<rparr>"

section \<open>Properties of the API calls\<close>

lemma get_prop_field: "get_prop v k = Inr x \<Longrightarrow> field v k = x"
  by (cases v) (simp_all add: field_def split: option.splits)

lemma get_prop_Obj: "get_prop (Obj kvs) k = Inr (field (Obj kvs) k)"
  by (simp add: field_def split: option.splits)

lemma get_prop_truthy: "truthy x \<Longrightarrow> get_prop x k = Inr (field x k)"
  by (cases x) (simp_all add: field_def split: option.splits)

lemma truthy_field_Obj: "truthy (field v k) \<Longrightarrow> \<exists>kvs. v = Obj kvs"
  by (cases v) (simp_all add: field_def)

lemma falsy_field: "\<not> truthy x \<Longrightarrow> field x k = Undefined"
  by (cases x) (simp_all add: field_def)

lemma truthy_string: "truthy x \<Longrightarrow> is_string x \<Longrightarrow> \<exists>s. x = Str s \<and> s \<noteq> []"
  by (cases x) simp_all

lemma js_toLowerCase_Inr: "js_toLowerCase lower x = Inr low \<Longrightarrow> is_string x"
  by (cases x) simp_all

lemma js_toLowerCase_throws: "\<not> is_string x \<Longrightarrow> \<exists>e. js_toLowerCase lower x = Inl e"
  by (cases x) simp_all

lemma spec_principal_name_nested:
  "\<not> truthy (field v ''name'') \<Longrightarrow>
   spec_principal_name v = (case field (field v ''user'') ''name'' of Str s \<Rightarrow> Some s | _ \<Rightarrow> None)"
  by (cases "field v ''name''") (simp_all add: spec_principal_name_def)

text \<open>The name the callback compares, for an entry that is an object.\<close>

lemma entry_nm_Obj:
  "entry_nm (Obj kvs) =
     Inr (if truthy (field (Obj kvs) ''name'') then field (Obj kvs) ''name''
          else if truthy (field (field (Obj kvs) ''user'') ''name'')
               then field (field (Obj kvs) ''user'') ''name''
          else Str [])"
proof (cases "truthy (field (Obj kvs) ''user'')")
  case True
  then show ?thesis
    by (simp add: entry_nm_def get_prop_Obj get_prop_truthy del: get_prop.simps)
next
  case False
  then show ?thesis
    by (simp add: entry_nm_def get_prop_Obj falsy_field del: get_prop.simps)
qed

lemma entry_nm_other:
  "v \<noteq> Null \<Longrightarrow> v \<noteq> Undefined \<Longrightarrow> \<forall>kvs. v \<noteq> Obj kvs \<Longrightarrow> entry_nm v = Inr (Str [])"
  by (cases v) (simp_all add: entry_nm_def)

lemma field_other: "\<forall>kvs. v \<noteq> Obj kvs \<Longrightarrow> field v k = Undefined"
  by (cases v) (simp_all add: field_def)

text \<open>An entry that can be read is compared as the specification says.\<close>

lemma entry_matches_readable:
  assumes u: "u \<noteq> []" and cm: "js_case_mapping (toLowerCase cfg)"
    and r: "\<not> spec_unreadable_entry v"
  shows "entry_matches cfg u v = Inr (spec_entry_matches cfg u v)"
proof -
  from cm u have nl: "toLowerCase cfg [] \<noteq> toLowerCase cfg u"
    by (metis js_case_mapping_def)
  show ?thesis
  proof (cases "\<exists>kvs. v = Obj kvs")
    case False
    with r have nm: "entry_nm v = Inr (Str [])"
      by (simp add: entry_nm_other spec_unreadable_entry_def)
    from False have "spec_principal_name v = None"
      by (simp add: spec_principal_name_def field_other)
    with nm nl show ?thesis
      by (simp add: entry_matches_def spec_entry_matches_def)
  next
    case True
    then obtain kvs where v: "v = Obj kvs" by blast
    let ?flat = "field v ''name''" and ?nested = "field (field v ''user'') ''name''"
    show ?thesis
    proof (cases "truthy ?flat")
      case flat: True
      with r have "is_string ?flat" by (auto simp: spec_unreadable_entry_def)
      with flat obtain s where s: "?flat = Str s" "s \<noteq> []" using truthy_string by blast
      with v show ?thesis
        by (simp add: entry_matches_def entry_nm_Obj spec_entry_matches_def
            spec_principal_name_def spec_ci_equal_def)
    next
      case noflat: False
      show ?thesis
      proof (cases "truthy ?nested")
        case True
        with r noflat have "is_string ?nested" by (auto simp: spec_unreadable_entry_def)
        with True obtain s where s: "?nested = Str s" "s \<noteq> []" using truthy_string by blast
        with v noflat show ?thesis
          by (simp add: entry_matches_def entry_nm_Obj spec_entry_matches_def
              spec_principal_name_nested spec_ci_equal_def)
      next
        case False
        then have "spec_principal_name v = None \<or> spec_principal_name v = Some []"
          using noflat by (cases ?nested) (simp_all add: spec_principal_name_nested)
        with v noflat False nl show ?thesis
          by (auto simp: entry_matches_def entry_nm_Obj spec_entry_matches_def spec_ci_equal_def)
      qed
    qed
  qed
qed

text \<open>An entry that cannot be read makes the callback throw.\<close>

lemma entry_matches_unreadable:
  assumes "spec_unreadable_entry v"
  shows "\<exists>e. entry_matches cfg u v = Inl e"
proof (cases "v = Null \<or> v = Undefined")
  case True
  then show ?thesis by (auto simp: entry_matches_def entry_nm_def)
next
  case False
  with assms have "truthy (field v ''name'') \<or> truthy (field (field v ''user'') ''name'')"
    by (auto simp: spec_unreadable_entry_def)
  then obtain kvs where v: "v = Obj kvs"
    using truthy_field_Obj falsy_field by (metis truthy.simps(1))
  from assms False
  have "\<not> is_string (if truthy (field v ''name'') then field v ''name''
                       else if truthy (field (field v ''user'') ''name'')
                            then field (field v ''user'') ''name'' else Str [])"
    by (auto simp: spec_unreadable_entry_def)
  from js_toLowerCase_throws[OF this, of "toLowerCase cfg"]
  obtain e where "js_toLowerCase (toLowerCase cfg)
                    (if truthy (field v ''name'') then field v ''name''
                       else if truthy (field (field v ''user'') ''name'')
                            then field (field v ''user'') ''name'' else Str []) = Inl e"
    by blast
  then have "entry_matches cfg u v = Inl e"
    unfolding v entry_matches_def entry_nm_Obj by simp
  then show ?thesis by blast
qed

lemma entry_matches_Inr_readable:
  "entry_matches cfg u v = Inr b \<Longrightarrow> \<not> spec_unreadable_entry v"
  using entry_matches_unreadable[of v cfg u] by auto

lemma some_matches_readable:
  assumes "u \<noteq> []" and "js_case_mapping (toLowerCase cfg)"
    and "\<forall>e\<in>set vs. \<not> spec_unreadable_entry e"
  shows "some_matches cfg u vs = Inr (\<exists>v\<in>set vs. spec_entry_matches cfg u v)"
  using assms(3)
proof (induction vs)
  case Nil
  show ?case by simp
next
  case (Cons v vs)
  from Cons.prems have "entry_matches cfg u v = Inr (spec_entry_matches cfg u v)"
    using entry_matches_readable[OF assms(1,2)] by simp
  with Cons show ?case
    by (cases "spec_entry_matches cfg u v") simp_all
qed

lemma some_matches_prefix:
  assumes "u \<noteq> []" and "js_case_mapping (toLowerCase cfg)"
    and "\<forall>e\<in>set pre. \<not> spec_unreadable_entry e \<and> \<not> spec_entry_matches cfg u e"
  shows "some_matches cfg u (pre @ vs) = some_matches cfg u vs"
  using assms(3)
proof (induction pre)
  case Nil
  show ?case by simp
next
  case (Cons v pre)
  from Cons.prems have "entry_matches cfg u v = Inr False"
    using entry_matches_readable[OF assms(1,2), of v] by simp
  with Cons show ?case by simp
qed

lemma some_matches_first_match:
  assumes "u \<noteq> []" and "js_case_mapping (toLowerCase cfg)"
    and "\<forall>e\<in>set pre. \<not> spec_unreadable_entry e \<and> \<not> spec_entry_matches cfg u e"
    and "\<not> spec_unreadable_entry v" and "spec_entry_matches cfg u v"
  shows "some_matches cfg u (pre @ v # rest) = Inr True"
  using entry_matches_readable[OF assms(1,2,4)] assms(5)
  by (simp add: some_matches_prefix[OF assms(1-3)])

lemma some_matches_throws:
  assumes "u \<noteq> []" and "js_case_mapping (toLowerCase cfg)"
    and "\<forall>e\<in>set pre. \<not> spec_unreadable_entry e \<and> \<not> spec_entry_matches cfg u e"
    and "spec_unreadable_entry v"
  shows "\<exists>e. some_matches cfg u (pre @ v # rest) = Inl e"
  using entry_matches_unreadable[OF assms(4), of cfg u]
  by (auto simp: some_matches_prefix[OF assms(1-3)])

lemma some_matches_spec:
  assumes "u \<noteq> []" and "js_case_mapping (toLowerCase cfg)"
    and "some_matches cfg u vs = Inr b"
  shows "b = (\<exists>v\<in>set vs. spec_entry_matches cfg u v)"
  using assms(3)
proof (induction vs)
  case Nil
  then show ?case by simp
next
  case (Cons v vs)
  from Cons.prems obtain c where c: "entry_matches cfg u v = Inr c"
    by (auto split: sum.splits)
  with entry_matches_readable[OF assms(1,2) entry_matches_Inr_readable[OF c]]
  have sp: "c = spec_entry_matches cfg u v" by simp
  show ?case
  proof (cases c)
    case True
    with c Cons.prems sp show ?thesis by auto
  next
    case False
    with c Cons.prems have "some_matches cfg u vs = Inr b" by simp
    from Cons.IH[OF this] False sp show ?thesis by auto
  qed
qed

text \<open>On ASCII text the lower-case forms are equal exactly for the same letters.\<close>

lemma of_char_ascii_toLowerChar:
  "(of_char (ascii_toLowerChar c) :: nat) =
     (if ascii_upper c then of_char c + 32 else of_char c)"
proof -
  have "(of_char c :: nat) < 256" by simp
  then show ?thesis
    by (simp add: ascii_toLowerChar_def ascii_upper_def Let_def)
qed

lemma ascii_toLowerChar_eq_iff:
  "(ascii_toLowerChar c = ascii_toLowerChar d) = spec_same_letter c d"
proof -
  have "(ascii_toLowerChar c = ascii_toLowerChar d)
          = ((of_char (ascii_toLowerChar c) :: nat) = of_char (ascii_toLowerChar d))"
    by simp
  also have "\<dots> = spec_same_letter c d"
    unfolding of_char_ascii_toLowerChar spec_same_letter_def
    using of_char_eq_iff[of c d, where ?'a = nat]
    by (auto simp: ascii_upper_def)
  finally show ?thesis .
qed

lemma ascii_toLowerCase_eq_iff:
  "(ascii_toLowerCase a = ascii_toLowerCase b) = spec_ascii_ci_equal a b"
  unfolding ascii_toLowerCase_def spec_ascii_ci_equal_def
proof (induction a arbitrary: b)
  case Nil
  show ?case by auto
next
  case (Cons x xs)
  show ?case
    by (cases b) (simp_all add: Cons.IH ascii_toLowerChar_eq_iff)
qed

lemma js_case_mapping_ascii: "js_case_mapping ascii_toLowerCase"
  by (simp add: js_case_mapping_def ascii_toLowerCase_def)

lemma spec_ci_equal_ascii:
  assumes "js_case_mapping (toLowerCase cfg)" and "list_all is_ascii n" and "list_all is_ascii u"
  shows "spec_ci_equal cfg n u = spec_ascii_ci_equal n u"
  using assms by (simp add: spec_ci_equal_def js_case_mapping_def ascii_toLowerCase_eq_iff)

lemma verifyAccess_Response:
  "verifyAccess cfg (Response st d) pk u =
     Inr (if default_validateStatus st
          then (case scan_hasAccess cfg u d of
                  Inl err \<Rightarrow> \<lparr>ok = False, status = None, hasAccess = None, raw = Undefined,
                               error = Some err, url = verify_url cfg pk u\<rparr>
                | Inr h \<Rightarrow> \<lparr>ok = True, status = Some st, hasAccess = Some h, raw = d,
                             error = None, url = verify_url cfg pk u\<rparr>)
          else \<lparr>ok = False, status = None, hasAccess = None, raw = Undefined,
                 error = Some (BadStatus st), url = verify_url cfg pk u\<rparr>)"
  by (simp add: verifyAccess_def try_catch_def axios_def Let_def split: sum.splits)

text \<open>
  C4. \<open>revokeAccess\<close> always returns a result and never throws. For a response, \<open>ok\<close> is
  true exactly when the status is 204, and the status is recorded whatever it is; for a
  transport failure the result has \<open>ok = False\<close>, no status, and the error recorded.
\<close>

theorem revokeAccess_result:
  "\<exists>r. revokeAccess cfg out pk u = Inr r \<and> url r = revoke_url cfg pk u \<and>
     (case out of
        Response st d \<Rightarrow> ok r = (st = 204) \<and> status r = Some st \<and> error r = None
      | NetworkFailure m \<Rightarrow> \<not> ok r \<and> status r = None \<and> error r = Some (NetworkError m))"
  by (cases out) (simp_all add: revokeAccess_def try_catch_def axios_def Let_def)

theorem revokeAccess_result_witness:
  "(\<exists>r. revokeAccess example_cfg (Response 200 Null) ''PROJ1'' ''jdoe'' = Inr r
        \<and> \<not> ok r \<and> status r = Some 200 \<and> error r = None)
   \<and> (\<exists>r. revokeAccess example_cfg (Response 204 Null) ''PROJ1'' ''jdoe'' = Inr r
        \<and> ok r \<and> status r = Some 204)
   \<and> (\<exists>r. revokeAccess example_cfg (NetworkFailure ''ECONNREFUSED'') ''PROJ1'' ''jdoe'' = Inr r
        \<and> \<not> ok r \<and> status r = None \<and> error r = Some (NetworkError ''ECONNREFUSED''))"
  using revokeAccess_result[of example_cfg "Response 200 Null" "''PROJ1''" "''jdoe''"]
        revokeAccess_result[of example_cfg "Response 204 Null" "''PROJ1''" "''jdoe''"]
        revokeAccess_result[of example_cfg "NetworkFailure ''ECONNREFUSED''" "''PROJ1''" "''jdoe''"]
  by auto

text \<open>
  C5 as stated does not hold: a 200 response whose list is \<open>[null, {name: "jdoe"}]\<close>
  contains an entry with the user's name, yet the scan throws at the first entry, the
  throw is caught, and the result has \<open>ok = False\<close> and no \<open>hasAccess\<close>: the verdict is
  false.
\<close>

theorem scan_throws_before_the_match:
  "default_validateStatus 200
   \<and> values_array null_first_payload = Some [Null, Obj [(''name'', Str ''jdoe'')]]
   \<and> spec_principal_name (Obj [(''name'', Str ''jdoe'')]) = Some ''jdoe''
   \<and> spec_ci_equal example_cfg ''jdoe'' ''jdoe''
   \<and> verifyAccess example_cfg (Response 200 null_first_payload) ''PROJ1'' ''jdoe''
       = Inr \<lparr>ok = False, status = None, hasAccess = None, raw = Undefined,
              error = Some (TypeError (''Cannot read properties of null (reading ''
                        @ [CHR 0x27] @ ''name'' @ [CHR 0x27] @ '')'')),
              url = verify_url example_cfg ''PROJ1'' ''jdoe''\<rparr>
   \<and> \<not> stillHasAccess \<lparr>ok = False, status = None, hasAccess = None, raw = Undefined,
              error = Some (TypeError (''Cannot read properties of null (reading ''
                        @ [CHR 0x27] @ ''name'' @ [CHR 0x27] @ '')'')),
              url = verify_url example_cfg ''PROJ1'' ''jdoe''\<rparr>"
  by code_simp

text \<open>
  C5 (amended). For a response with a status in 200..299 and a user name that is not
  empty (as in every call the program makes): a payload without a \<open>values\<close> array and an
  empty list give \<open>ok\<close> and the verdict false. When every entry of the list can be read,
  the result is \<open>ok\<close> and the verdict is true exactly when some entry has a principal name
  (flat \<open>name\<close>, or failing that nested \<open>user.name\<close>) equal to the user name without
  regard to case; entries with neither name shape give the verdict false. The scan ends at
  the first matching entry: what follows it, readable or not, is not looked at. When the
  scan meets an entry that cannot be read before any match, it throws, the throw is
  caught, and the result has \<open>ok = False\<close> and no \<open>hasAccess\<close> (verdict false), also when a
  later entry matches. Whenever the result is \<open>ok\<close>, the verdict is true exactly when some
  entry matches. Equality without regard to case is equality of the lower-case forms of
  the engine; on ASCII names it is equality letter by letter up to case.
\<close>

theorem verifyAccess_scan:
  assumes u: "u \<noteq> []" and cm: "js_case_mapping (toLowerCase cfg)"
    and st: "default_validateStatus st"
    and r: "verifyAccess cfg (Response st d) pk u = Inr r"
  shows "(values_array d = None \<or> values_array d = Some [] \<longrightarrow> ok r \<and> \<not> stillHasAccess r)
       \<and> (\<forall>vs. values_array d = Some vs \<and> (\<forall>v\<in>set vs. \<not> spec_unreadable_entry v)
              \<longrightarrow> ok r \<and> (stillHasAccess r \<longleftrightarrow> (\<exists>v\<in>set vs. spec_entry_matches cfg u v)))
       \<and> (\<forall>vs. values_array d = Some vs \<and> (\<forall>v\<in>set vs. spec_principal_name v = None)
              \<longrightarrow> \<not> stillHasAccess r)
       \<and> (\<forall>pre v rest.
              values_array d = Some (pre @ v # rest)
              \<and> (\<forall>e\<in>set pre. \<not> spec_unreadable_entry e \<and> \<not> spec_entry_matches cfg u e)
              \<and> \<not> spec_unreadable_entry v \<and> spec_entry_matches cfg u v
              \<longrightarrow> ok r \<and> stillHasAccess r)
       \<and> (\<forall>pre v rest.
              values_array d = Some (pre @ v # rest)
              \<and> (\<forall>e\<in>set pre. \<not> spec_unreadable_entry e \<and> \<not> spec_entry_matches cfg u e)
              \<and> spec_unreadable_entry v
              \<longrightarrow> \<not> ok r \<and> hasAccess r = None \<and> \<not> stillHasAccess r)
       \<and> (ok r \<longrightarrow>
            (stillHasAccess r \<longleftrightarrow>
               (\<exists>vs. values_array d = Some vs \<and> (\<exists>v\<in>set vs. spec_entry_matches cfg u v))))
       \<and> (\<forall>n. list_all is_ascii n \<and> list_all is_ascii u
              \<longrightarrow> (spec_ci_equal cfg n u \<longleftrightarrow> spec_ascii_ci_equal n u))"
proof -
  note vr = r[unfolded verifyAccess_Response, simplified st, simplified]
  have c1: "ok r \<and> \<not> stillHasAccess r"
    if "values_array d = None \<or> values_array d = Some []"
    using that vr by (auto simp: scan_hasAccess_def stillHasAccess_def)
  have c2: "ok r \<and> (stillHasAccess r \<longleftrightarrow> (\<exists>v\<in>set vs. spec_entry_matches cfg u v))"
    if "values_array d = Some vs \<and> (\<forall>v\<in>set vs. \<not> spec_unreadable_entry v)" for vs
  proof -
    from that have "some_matches cfg u vs = Inr (\<exists>v\<in>set vs. spec_entry_matches cfg u v)"
      using some_matches_readable[OF u cm] by blast
    with that vr show ?thesis
      by (auto simp: scan_hasAccess_def stillHasAccess_def)
  qed
  have c6: "stillHasAccess r \<longleftrightarrow>
              (\<exists>vs. values_array d = Some vs \<and> (\<exists>v\<in>set vs. spec_entry_matches cfg u v))"
    if "ok r"
  proof -
    from vr that obtain h where h: "scan_hasAccess cfg u d = Inr h" and rh: "hasAccess r = Some h"
      by (auto split: sum.splits)
    show ?thesis
    proof (cases "values_array d")
      case None
      with h rh show ?thesis by (auto simp: scan_hasAccess_def stillHasAccess_def)
    next
      case (Some vs)
      with h have "some_matches cfg u vs = Inr h" by (simp add: scan_hasAccess_def)
      from some_matches_spec[OF u cm this] Some rh show ?thesis
        by (simp add: stillHasAccess_def)
    qed
  qed
  have not_ok: "\<not> stillHasAccess r" if "\<not> ok r"
    using vr that by (auto simp: stillHasAccess_def split: sum.splits)
  have c3: "\<not> stillHasAccess r"
    if "values_array d = Some vs \<and> (\<forall>v\<in>set vs. spec_principal_name v = None)" for vs
    using that c6 not_ok by (cases "ok r") (auto simp: spec_entry_matches_def)
  have c4: "ok r \<and> stillHasAccess r"
    if "values_array d = Some (pre @ v # rest)
        \<and> (\<forall>e\<in>set pre. \<not> spec_unreadable_entry e \<and> \<not> spec_entry_matches cfg u e)
        \<and> \<not> spec_unreadable_entry v \<and> spec_entry_matches cfg u v" for pre v rest
  proof -
    from that have "some_matches cfg u (pre @ v # rest) = Inr True"
      using some_matches_first_match[OF u cm] by blast
    with that vr show ?thesis
      by (auto simp: scan_hasAccess_def stillHasAccess_def)
  qed
  have c5: "\<not> ok r \<and> hasAccess r = None \<and> \<not> stillHasAccess r"
    if "values_array d = Some (pre @ v # rest)
        \<and> (\<forall>e\<in>set pre. \<not> spec_unreadable_entry e \<and> \<not> spec_entry_matches cfg u e)
        \<and> spec_unreadable_entry v" for pre v rest
  proof -
    from that obtain e where "some_matches cfg u (pre @ v # rest) = Inl e"
      using some_matches_throws[OF u cm] by blast
    with that vr show ?thesis
      by (auto simp: scan_hasAccess_def stillHasAccess_def)
  qed
  have c7: "spec_ci_equal cfg n u \<longleftrightarrow> spec_ascii_ci_equal n u"
    if "list_all is_ascii n \<and> list_all is_ascii u" for n
    using that spec_ci_equal_ascii[OF cm] by blast
  from c1 have d1: "values_array d = None \<or> values_array d = Some [] \<longrightarrow> ok r \<and> \<not> stillHasAccess r"
    by (rule impI)
  from c2 have d2: "\<forall>vs. values_array d = Some vs \<and> (\<forall>v\<in>set vs. \<not> spec_unreadable_entry v)
              \<longrightarrow> ok r \<and> (stillHasAccess r \<longleftrightarrow> (\<exists>v\<in>set vs. spec_entry_matches cfg u v))"
    by (intro allI impI)
  from c3 have d3: "\<forall>vs. values_array d = Some vs \<and> (\<forall>v\<in>set vs. spec_principal_name v = None)
              \<longrightarrow> \<not> stillHasAccess r"
    by (intro allI impI)
  from c4 have d4: "\<forall>pre v rest.
              values_array d = Some (pre @ v # rest)
              \<and> (\<forall>e\<in>set pre. \<not> spec_unreadable_entry e \<and> \<not> spec_entry_matches cfg u e)
              \<and> \<not> spec_unreadable_entry v \<and> spec_entry_matches cfg u v
              \<longrightarrow> ok r \<and> stillHasAccess r"
    by (intro allI impI)
  from c5 have d5: "\<forall>pre v rest.
              values_array d = Some (pre @ v # rest)
              \<and> (\<forall>e\<in>set pre. \<not> spec_unreadable_entry e \<and> \<not> spec_entry_matches cfg u e)
              \<and> spec_unreadable_entry v
              \<longrightarrow> \<not> ok r \<and> hasAccess r = None \<and> \<not> stillHasAccess r"
    by (intro allI impI)
  from c6 have d6: "ok r \<longrightarrow>
            (stillHasAccess r \<longleftrightarrow>
               (\<exists>vs. values_array d = Some vs \<and> (\<exists>v\<in>set vs. spec_entry_matches cfg u v)))"
    by (rule impI)
  from c7 have d7: "\<forall>n. list_all is_ascii n \<and> list_all is_ascii u
              \<longrightarrow> (spec_ci_equal cfg n u \<longleftrightarrow> spec_ascii_ci_equal n u)"
    by (intro allI impI)
  from d1 d2 d3 d4 d5 d6 d7 show ?thesis
    by (intro conjI) assumption+
qed

theorem verifyAccess_scan_witness:
  "''jsmith'' \<noteq> [] \<and> js_case_mapping (toLowerCase example_cfg) \<and> default_validateStatus 200
   \<and> values_array example_payload
        = Some ([Obj [(''name'', Str ''Other'')]]
                @ Obj [(''user'', Obj [(''name'', Str ''JSmith'')])] # [Null])
   \<and> \<not> spec_unreadable_entry (Obj [(''name'', Str ''Other'')])
   \<and> \<not> spec_entry_matches example_cfg ''jsmith'' (Obj [(''name'', Str ''Other'')])
   \<and> \<not> spec_unreadable_entry (Obj [(''user'', Obj [(''name'', Str ''JSmith'')])])
   \<and> spec_entry_matches example_cfg ''jsmith'' (Obj [(''user'', Obj [(''name'', Str ''JSmith'')])])
   \<and> spec_unreadable_entry Null
   \<and> list_all is_ascii ''JSmith'' \<and> list_all is_ascii ''jsmith''
   \<and> spec_ascii_ci_equal ''JSmith'' ''jsmith''
   \<and> spec_ci_equal example_cfg ''JSmith'' ''jsmith''
   \<and> (\<exists>r. verifyAccess example_cfg (Response 200 example_payload) ''PROJ1'' ''jsmith'' = Inr r
          \<and> ok r \<and> stillHasAccess r)"
proof -
  obtain r where r: "verifyAccess example_cfg (Response 200 example_payload) ''PROJ1'' ''jsmith'' = Inr r"
    by (simp add: verifyAccess_Response)
  have u: "''jsmith'' \<noteq> []" by simp
  have cm: "js_case_mapping (toLowerCase example_cfg)"
    by (simp add: example_cfg_def js_case_mapping_ascii)
  have st: "default_validateStatus 200" by (simp add: default_validateStatus_def)
  have va: "values_array example_payload
        = Some ([Obj [(''name'', Str ''Other'')]]
                @ Obj [(''user'', Obj [(''name'', Str ''JSmith'')])] # [Null])"
    by (simp add: example_payload_def)
  have e1: "\<not> spec_unreadable_entry (Obj [(''name'', Str ''Other'')])"
    and e2: "\<not> spec_entry_matches example_cfg ''jsmith'' (Obj [(''name'', Str ''Other'')])"
    and e3: "\<not> spec_unreadable_entry (Obj [(''user'', Obj [(''name'', Str ''JSmith'')])])"
    and e4: "spec_entry_matches example_cfg ''jsmith'' (Obj [(''user'', Obj [(''name'', Str ''JSmith'')])])"
    and e5: "spec_unreadable_entry Null"
    and a: "list_all is_ascii ''JSmith''" "list_all is_ascii ''jsmith''"
    and sa: "spec_ascii_ci_equal ''JSmith'' ''jsmith''"
    by code_simp+
  note t = verifyAccess_scan[OF u cm st r]
  have pre: "\<forall>e\<in>set [Obj [(''name'', Str ''Other'')]].
               \<not> spec_unreadable_entry e \<and> \<not> spec_entry_matches example_cfg ''jsmith'' e"
    using e1 e2 by simp
  from t have t4: "values_array example_payload
          = Some ([Obj [(''name'', Str ''Other'')]]
                  @ Obj [(''user'', Obj [(''name'', Str ''JSmith'')])] # [Null])
        \<and> (\<forall>e\<in>set [Obj [(''name'', Str ''Other'')]].
               \<not> spec_unreadable_entry e \<and> \<not> spec_entry_matches example_cfg ''jsmith'' e)
        \<and> \<not> spec_unreadable_entry (Obj [(''user'', Obj [(''name'', Str ''JSmith'')])])
        \<and> spec_entry_matches example_cfg ''jsmith'' (Obj [(''user'', Obj [(''name'', Str ''JSmith'')])])
        \<longrightarrow> ok r \<and> stillHasAccess r"
    by (elim conjE) (erule allE)+
  with va pre e3 e4 have k: "ok r \<and> stillHasAccess r" by (elim impE) (intro conjI)
  from t have t7: "list_all is_ascii ''JSmith'' \<and> list_all is_ascii ''jsmith''
        \<longrightarrow> (spec_ci_equal example_cfg ''JSmith'' ''jsmith'' \<longleftrightarrow> spec_ascii_ci_equal ''JSmith'' ''jsmith'')"
    by (elim conjE) (erule allE)
  with a sa have ci: "spec_ci_equal example_cfg ''JSmith'' ''jsmith''" by simp
  from k r have ex: "\<exists>r. verifyAccess example_cfg (Response 200 example_payload) ''PROJ1'' ''jsmith'' = Inr r
          \<and> ok r \<and> stillHasAccess r"
    by (intro exI[of _ r]) simp
  from ex ci u cm st va e1 e2 e3 e4 e5 a sa show ?thesis
    by (intro conjI) assumption+
qed

text \<open>
  C6. When the request of \<open>verifyAccess\<close> throws, the result has \<open>ok = False\<close> and no
  \<open>hasAccess\<close> property, which the program reads as false.
\<close>

theorem verifyAccess_request_throws:
  assumes "axios default_validateStatus out = Inl err"
  shows "\<exists>r. verifyAccess cfg out pk u = Inr r \<and> \<not> ok r \<and> hasAccess r = None
             \<and> \<not> stillHasAccess r \<and> error r = Some err"
  using assms by (simp add: verifyAccess_def try_catch_def stillHasAccess_def)

theorem verifyAccess_request_throws_witness:
  "axios default_validateStatus (NetworkFailure ''timeout of 20000ms exceeded'')
     = Inl (NetworkError ''timeout of 20000ms exceeded'') \<and>
   (\<exists>r. verifyAccess example_cfg (NetworkFailure ''timeout of 20000ms exceeded'') ''PROJ1'' ''jdoe'' = Inr r
       \<and> \<not> ok r \<and> hasAccess r = None \<and> \<not> stillHasAccess r
       \<and> error r = Some (NetworkError ''timeout of 20000ms exceeded''))"
proof -
  have h: "axios default_validateStatus (NetworkFailure ''timeout of 20000ms exceeded'')
             = Inl (NetworkError ''timeout of 20000ms exceeded'')"
    by (simp add: axios_def)
  from verifyAccess_request_throws[OF h] h show ?thesis by blast
qed

section \<open>Properties of the renderer and of the loop body\<close>

lemmas prog_defs = ret_def throw_def lift_def andThen_def catch_def console_log_def

text \<open>The trim of the capture never throws and only touches files.\<close>

lemma trim_capture_returns: "trim_capture env tmp dest w = (res, w') \<Longrightarrow> res = Inr ()"
  by (auto simp: trim_capture_def prog_defs sharp_trim_toFile_def unlinkSync_def renameSync_def
      split: option.splits content.splits prod.splits sum.splits if_splits)

lemma trim_capture_frame:
  "trim_capture env tmp dest w = (res, w') \<Longrightarrow>
   open_browsers w' = open_browsers w \<and> calls w' = calls w \<and> console w' = console w"
  by (auto simp: trim_capture_def prog_defs sharp_trim_toFile_def unlinkSync_def renameSync_def
      split: option.splits content.splits prod.splits sum.splits if_splits)

lemma capture_frame:
  "capture env tmp c w = (res, w') \<Longrightarrow> open_browsers w' = open_browsers w \<and> console w' = console w"
  by (auto simp: capture_def prog_defs page_screenshot_def split: option.splits)

lemma createEvidence_browser:
  assumes "createEvidence cfg env usr accId pk apiUrl resp dest w = (res, w')"
  shows "(\<exists>ev. res = Inr ev) = normal_return env"
    and "open_browsers w' =
           (if writeFileSync_ok env \<and> launch_ok env \<and> \<not> normal_return env
            then Suc (open_browsers w) else open_browsers w)"
  using assms
  apply (auto simp: createEvidence_def normal_return_def raw_capture_def Let_def prog_defs writeFileSync_def puppeteer_launch_def
      browser_newPage_def page_goto_def page_evaluate_def page_setViewport_def browser_close_def
      capture_def page_screenshot_def
      split: if_splits option.splits prod.splits sum.splits dest: trim_capture_frame trim_capture_returns)
  done

lemma trim_capture_files:
  assumes rw: "map_of (files w) tmp = Some (Png rawimg)" and ne: "tmp \<noteq> dest"
    and run: "trim_capture env tmp dest w = (res, w')"
  shows "res = Inr ()"
    and "trim_result env rawimg = Some t \<and> unlinkSync_ok env \<longrightarrow>
           map_of (files w') dest = Some (Png t) \<and> map_of (files w') tmp = None"
    and "trim_result env rawimg = None \<and> renameSync_ok env \<longrightarrow>
           map_of (files w') dest = Some (Png rawimg) \<and> map_of (files w') tmp = None"
    and "trim_result env rawimg = None \<and> \<not> renameSync_ok env \<longrightarrow>
           map_of (files w') dest = map_of (files w) dest
           \<and> map_of (files w') tmp = Some (Png rawimg)"
    and "(trim_result env rawimg \<noteq> None \<or> renameSync_ok env) \<longrightarrow>
           (\<exists>img. map_of (files w') dest = Some (Png img))"
    and "(trim_result env rawimg \<noteq> None \<and> unlinkSync_ok env) \<or> renameSync_ok env \<longrightarrow>
           map_of (files w') tmp = None"
    and "(\<exists>img. map_of (files w') dest = Some (Png img))
           \<or> map_of (files w') tmp = Some (Png rawimg)"
    and "\<forall>p. p \<noteq> dest \<and> p \<noteq> tmp \<longrightarrow> map_of (files w') p = map_of (files w) p"
    and "\<not> ((trim_result env rawimg \<noteq> None \<and> unlinkSync_ok env) \<or> renameSync_ok env) \<longrightarrow>
           map_of (files w') tmp = Some (Png rawimg)"
  using assms
  by (auto simp: trim_capture_def prog_defs sharp_trim_toFile_def unlinkSync_def renameSync_def
      update_conv' delete_conv'
      split: option.splits content.splits prod.splits sum.splits if_splits)
















lemma console_blind_log: "same_effects w (snd (console_log l w))" "same_effects (w\<lparr>console := c\<rparr>) w"
  by (simp_all add: same_effects_def console_log_def)





lemma createEvidence_calls:
  assumes "createEvidence cfg env usr accId pk apiUrl resp dest w = (res, w')"
    and "writeFileSync_ok env" "launch_ok env" "newPage_ok env" "goto_ok env"
    and "evaluate_result env = Some r" "setViewport_ok env"
  shows "\<exists>rest. calls w' = calls w @ [Launch, NewPage,
                      Goto (''file://'' @ evidence_html_path cfg env usr pk), Evaluate,
                      SetViewport (viewport_for (clip_region r))] @ rest
           \<and> (clip_screenshot env \<noteq> None \<longrightarrow>
                 rest = Screenshot (dest @ ''.tmp.png'') (Clip (clip_region r))
                          # (if close_ok env then [Close] else []))"
  using assms
  by (auto simp: createEvidence_def Let_def prog_defs writeFileSync_def puppeteer_launch_def
      browser_newPage_def page_goto_def page_evaluate_def page_setViewport_def browser_close_def
      capture_def page_screenshot_def
      split: if_splits option.splits prod.splits sum.splits
      dest: trim_capture_frame trim_capture_returns)

lemma createEvidence_closes:
  assumes "createEvidence cfg env usr accId pk apiUrl resp dest w = (Inr ev, w')"
  shows "\<exists>cs. calls w' = cs @ [Close]"
  using assms
  by (auto simp: createEvidence_def Let_def prog_defs writeFileSync_def puppeteer_launch_def
      browser_newPage_def page_goto_def page_evaluate_def page_setViewport_def browser_close_def
      capture_def page_screenshot_def
      split: if_splits option.splits prod.splits sum.splits
      dest: trim_capture_frame trim_capture_returns)

text \<open>
  C9. The capture region starts at the measured origin, a negative coordinate being
  replaced by 0. Its width is the measured width when that is neither zero nor missing and
  at most 16384, is 16384 when the measured width is larger, and is the default 1280 when
  the width measures zero or is missing; the height likewise, with the default 900. So
  neither exceeds 16384. The viewport asked for is the larger of the clip origin plus the
  clip width and 1280, by the larger of the clip origin plus the clip height and 900, hence
  at least as wide and as high as the extent of the region. In a run that reaches the
  resize, \<open>setViewport\<close> is called with that viewport right after the measurement, and
  the clip capture with that region.
\<close>

theorem clip_region_clamped:
  "clipX (clip_region r) = max 0 (rect_x r) \<and> clipY (clip_region r) = max 0 (rect_y r)
   \<and> clipW (clip_region r) \<le> 16384 \<and> clipH (clip_region r) \<le> 16384
   \<and> (rect_width r = None \<or> rect_width r = Some 0 \<longrightarrow> clipW (clip_region r) = 1280)
   \<and> (rect_height r = None \<or> rect_height r = Some 0 \<longrightarrow> clipH (clip_region r) = 900)
   \<and> (\<forall>n. rect_width r = Some n \<and> n \<noteq> 0 \<and> n \<le> 16384 \<longrightarrow> clipW (clip_region r) = n)
   \<and> (\<forall>n. rect_width r = Some n \<and> 16384 < n \<longrightarrow> clipW (clip_region r) = 16384)
   \<and> (\<forall>n. rect_height r = Some n \<and> n \<noteq> 0 \<and> n \<le> 16384 \<longrightarrow> clipH (clip_region r) = n)
   \<and> (\<forall>n. rect_height r = Some n \<and> 16384 < n \<longrightarrow> clipH (clip_region r) = 16384)
   \<and> vp_width (viewport_for (clip_region r))
        = max (clipX (clip_region r) + clipW (clip_region r)) 1280
   \<and> vp_height (viewport_for (clip_region r))
        = max (clipY (clip_region r) + clipH (clip_region r)) 900
   \<and> clipX (clip_region r) + clipW (clip_region r) \<le> vp_width (viewport_for (clip_region r))
   \<and> clipY (clip_region r) + clipH (clip_region r) \<le> vp_height (viewport_for (clip_region r))
   \<and> (createEvidence cfg env usr accId pk apiUrl resp dest w = (res, w')
          \<and> writeFileSync_ok env \<and> launch_ok env \<and> newPage_ok env \<and> goto_ok env
          \<and> evaluate_result env = Some r \<and> setViewport_ok env
        \<longrightarrow> (\<exists>rest. calls w' = calls w @ [Launch, NewPage,
                      Goto (''file://'' @ evidence_html_path cfg env usr pk), Evaluate,
                      SetViewport (viewport_for (clip_region r))] @ rest
               \<and> (clip_screenshot env \<noteq> None \<longrightarrow>
                     rest = Screenshot (dest @ ''.tmp.png'') (Clip (clip_region r))
                              # (if close_ok env then [Close] else []))))"
proof -
  have o1: "clipX (clip_region r) = max 0 (rect_x r)"
    and o2: "clipY (clip_region r) = max 0 (rect_y r)"
    by (simp_all add: clip_region_def)
  have g1: "clipW (clip_region r) \<le> 16384" and g2: "clipH (clip_region r) \<le> 16384"
    by (simp_all add: clip_region_def MAX_DIM_def)
  have g3: "rect_width r = None \<or> rect_width r = Some 0 \<longrightarrow> clipW (clip_region r) = 1280"
    and g4: "rect_height r = None \<or> rect_height r = Some 0 \<longrightarrow> clipH (clip_region r) = 900"
    by (auto simp: clip_region_def or_default_def MAX_DIM_def)
  have k1: "\<forall>n. rect_width r = Some n \<and> n \<noteq> 0 \<and> n \<le> 16384 \<longrightarrow> clipW (clip_region r) = n"
    and k2: "\<forall>n. rect_width r = Some n \<and> 16384 < n \<longrightarrow> clipW (clip_region r) = 16384"
    and k3: "\<forall>n. rect_height r = Some n \<and> n \<noteq> 0 \<and> n \<le> 16384 \<longrightarrow> clipH (clip_region r) = n"
    and k4: "\<forall>n. rect_height r = Some n \<and> 16384 < n \<longrightarrow> clipH (clip_region r) = 16384"
    by (auto simp: clip_region_def or_default_def MAX_DIM_def)
  have v1: "vp_width (viewport_for (clip_region r))
              = max (clipX (clip_region r) + clipW (clip_region r)) 1280"
    and v2: "vp_height (viewport_for (clip_region r))
              = max (clipY (clip_region r) + clipH (clip_region r)) 900"
    by (simp_all add: viewport_for_def)
  have g5: "clipX (clip_region r) + clipW (clip_region r) \<le> vp_width (viewport_for (clip_region r))"
    and g6: "clipY (clip_region r) + clipH (clip_region r) \<le> vp_height (viewport_for (clip_region r))"
    by (simp_all add: viewport_for_def)
  have g7: "createEvidence cfg env usr accId pk apiUrl resp dest w = (res, w')
          \<and> writeFileSync_ok env \<and> launch_ok env \<and> newPage_ok env \<and> goto_ok env
          \<and> evaluate_result env = Some r \<and> setViewport_ok env
        \<longrightarrow> (\<exists>rest. calls w' = calls w @ [Launch, NewPage,
                      Goto (''file://'' @ evidence_html_path cfg env usr pk), Evaluate,
                      SetViewport (viewport_for (clip_region r))] @ rest
               \<and> (clip_screenshot env \<noteq> None \<longrightarrow>
                     rest = Screenshot (dest @ ''.tmp.png'') (Clip (clip_region r))
                              # (if close_ok env then [Close] else [])))"
    by (intro impI, elim conjE, rule createEvidence_calls)
  show ?thesis
    by (intro conjI o1 o2 g1 g2 g3 g4 k1 k2 k3 k4 v1 v2 g5 g6 g7)
qed

theorem clip_region_clamped_witness:
  "clip_region wide_rect = \<lparr>clipX = 8, clipY = 0, clipW = 16384, clipH = 900\<rparr>
   \<and> viewport_for (clip_region wide_rect) = \<lparr>vp_width = 16392, vp_height = 900\<rparr>
   \<and> rect_width wide_rect = Some 20000 \<and> rect_height wide_rect = Some 0
   \<and> clipW (clip_region wide_rect) = 16384
   \<and> clipH (clip_region wide_rect) = 900
   \<and> clipY (clip_region wide_rect) = 0
   \<and> vp_width (viewport_for (clip_region wide_rect)) = 16392
   \<and> rect_width measured_rect = Some 800 \<and> rect_height measured_rect = Some 300
   \<and> clipX (clip_region measured_rect) = 8 \<and> clipY (clip_region measured_rect) = 40
   \<and> clipW (clip_region measured_rect) = 800 \<and> clipH (clip_region measured_rect) = 300
   \<and> vp_width (viewport_for (clip_region measured_rect)) = 1280
   \<and> vp_height (viewport_for (clip_region measured_rect)) = 900
   \<and> (\<exists>rest. calls (snd (createEvidence example_cfg clip_render_env ''jdoe'' ''557058:1'' ''PROJ1''
                  ''http://bitbucket.example:7990/q'' (Payload Null) ''/work/a.png'' empty_world))
         = calls empty_world @ [Launch, NewPage,
              Goto (''file://'' @ evidence_html_path example_cfg clip_render_env ''jdoe'' ''PROJ1''),
              Evaluate, SetViewport (viewport_for (clip_region wide_rect))] @ rest
         \<and> rest = Screenshot (''/work/a.png'' @ ''.tmp.png'') (Clip (clip_region wide_rect))
                              # (if close_ok clip_render_env then [Close] else []))"
proof -
  let ?run = "createEvidence example_cfg clip_render_env ''jdoe'' ''557058:1'' ''PROJ1''
                ''http://bitbucket.example:7990/q'' (Payload Null) ''/work/a.png'' empty_world"
  have c: "clip_region wide_rect = \<lparr>clipX = 8, clipY = 0, clipW = 16384, clipH = 900\<rparr>"
    by code_simp
  have v: "viewport_for (clip_region wide_rect) = \<lparr>vp_width = 16392, vp_height = 900\<rparr>"
    by code_simp
  have h: "?run = (fst ?run, snd ?run)
          \<and> writeFileSync_ok clip_render_env \<and> launch_ok clip_render_env
          \<and> newPage_ok clip_render_env \<and> goto_ok clip_render_env
          \<and> evaluate_result clip_render_env = Some wide_rect \<and> setViewport_ok clip_render_env"
    by (simp add: clip_render_env_def example_render_env_def)
  have cs: "clip_screenshot clip_render_env \<noteq> None"
    by (simp add: clip_render_env_def)
  have wr: "rect_x wide_rect = 8" "rect_y wide_rect = - 3"
    "rect_width wide_rect = Some 20000" "rect_height wide_rect = Some 0"
    by (simp_all add: wide_rect_def)
  have mr: "rect_x measured_rect = 8" "rect_y measured_rect = 40"
    "rect_width measured_rect = Some 800" "rect_height measured_rect = Some 300"
    by (simp_all add: measured_rect_def)
  note t = clip_region_clamped[of wide_rect example_cfg clip_render_env "''jdoe''" "''557058:1''"
        "''PROJ1''" "''http://bitbucket.example:7990/q''" "Payload Null" "''/work/a.png''"
        empty_world "fst ?run" "snd ?run"]
  note m = clip_region_clamped[of measured_rect]
  from t wr have w1: "clipW (clip_region wide_rect) = 16384" by simp
  from t wr have w2: "clipH (clip_region wide_rect) = 900" by simp
  from t wr have w3: "clipY (clip_region wide_rect) = 0" by simp
  from t wr have w0: "clipX (clip_region wide_rect) = 8" by simp
  from t w0 w1 have w4: "vp_width (viewport_for (clip_region wide_rect)) = 16392" by simp
  from m mr have m1: "clipX (clip_region measured_rect) = 8" by simp
  from m mr have m2: "clipY (clip_region measured_rect) = 40" by simp
  from m mr have m3: "clipW (clip_region measured_rect) = 800" by simp
  from m mr have m4: "clipH (clip_region measured_rect) = 300" by simp
  from m m1 m3 have m5: "vp_width (viewport_for (clip_region measured_rect)) = 1280" by simp
  from m m2 m4 have m6: "vp_height (viewport_for (clip_region measured_rect)) = 900" by simp
  from t h cs have run: "\<exists>rest. calls (snd ?run)
         = calls empty_world @ [Launch, NewPage,
              Goto (''file://'' @ evidence_html_path example_cfg clip_render_env ''jdoe'' ''PROJ1''),
              Evaluate, SetViewport (viewport_for (clip_region wide_rect))] @ rest
         \<and> rest = Screenshot (''/work/a.png'' @ ''.tmp.png'') (Clip (clip_region wide_rect))
                              # (if close_ok clip_render_env then [Close] else [])"
    by simp
  from c v wr(3,4) w1 w2 w3 w4 mr(3,4) m1 m2 m3 m4 m5 m6 run show ?thesis
    by (intro conjI) assumption+
qed


section \<open>The evidence renderer\<close>

text \<open>
  C7 as stated does not hold: when the navigation throws, the exception leaves
  \<open>createEvidence\<close> with the browser it launched still open, and \<open>close\<close> is never called.
\<close>

theorem createEvidence_leaks_browser:
  "fst (createEvidence example_cfg (example_render_env\<lparr>goto_ok := False\<rparr>) ''jdoe'' ''557058:1''
          ''PROJ1'' ''http://bitbucket.example:7990/q'' (Payload Null) ''/work/a.png'' empty_world)
     = Inl (RenderError ''goto'')
   \<and> open_browsers empty_world = 0
   \<and> open_browsers (snd (createEvidence example_cfg (example_render_env\<lparr>goto_ok := False\<rparr>)
          ''jdoe'' ''557058:1'' ''PROJ1'' ''http://bitbucket.example:7990/q'' (Payload Null)
          ''/work/a.png'' empty_world)) = 1
   \<and> calls (snd (createEvidence example_cfg (example_render_env\<lparr>goto_ok := False\<rparr>)
          ''jdoe'' ''557058:1'' ''PROJ1'' ''http://bitbucket.example:7990/q'' (Payload Null)
          ''/work/a.png'' empty_world)) = [Launch, NewPage]"
  by code_simp

text \<open>
  C7 (amended). \<open>createEvidence\<close> returns normally exactly when no call outside its two
  guarded blocks throws; a clip capture that throws (with a full-page capture that succeeds)
  and a trim that throws are among the normal returns. On every normal return the browser
  launched by the invocation has been closed, \<open>close\<close> being its last call. When a call
  outside the guarded blocks throws after the launch, the exception leaves the invocation
  with the browser still open.
\<close>

theorem createEvidence_releases_browser:
  assumes "createEvidence cfg env usr accId pk apiUrl resp dest w = (res, w')"
  shows "((\<exists>ev. res = Inr ev) \<longleftrightarrow> normal_return env)
       \<and> ((\<exists>ev. res = Inr ev) \<longrightarrow>
             open_browsers w' = open_browsers w \<and> (\<exists>cs. calls w' = cs @ [Close]))
       \<and> ((\<exists>e. res = Inl e) \<and> writeFileSync_ok env \<and> launch_ok env \<longrightarrow>
             open_browsers w' = Suc (open_browsers w))"
proof -
  note b = createEvidence_browser[OF assms]
  have c: "\<exists>cs. calls w' = cs @ [Close]" if "\<exists>ev. res = Inr ev"
    using that assms createEvidence_closes by blast
  have e: "(\<exists>e. res = Inl e) = (\<not> (\<exists>ev. res = Inr ev))"
    by (cases res) simp_all
  from b c e show ?thesis by auto
qed

theorem createEvidence_releases_browser_witness:
  "createEvidence example_cfg example_render_env ''jdoe'' ''557058:1'' ''PROJ1''
      ''http://bitbucket.example:7990/q'' (Payload Null) ''/work/a.png'' empty_world
     = (Inr \<lparr>htmlFile = ''/work/output_files/html/jdoe_PROJ1_2024-01-02_03-04-05.html'',
             pngFile = ''/work/a.png''\<rparr>,
        snd (createEvidence example_cfg example_render_env ''jdoe'' ''557058:1'' ''PROJ1''
          ''http://bitbucket.example:7990/q'' (Payload Null) ''/work/a.png'' empty_world))
   \<and> clip_screenshot example_render_env = None
   \<and> trim_result example_render_env [7, 7, 1, 2, 7] = None
   \<and> normal_return example_render_env
   \<and> open_browsers (snd (createEvidence example_cfg example_render_env ''jdoe'' ''557058:1''
          ''PROJ1'' ''http://bitbucket.example:7990/q'' (Payload Null) ''/work/a.png''
          empty_world)) = open_browsers empty_world"
proof -
  let ?run = "createEvidence example_cfg example_render_env ''jdoe'' ''557058:1'' ''PROJ1''
      ''http://bitbucket.example:7990/q'' (Payload Null) ''/work/a.png'' empty_world"
  have f: "fst ?run = Inr \<lparr>htmlFile = ''/work/output_files/html/jdoe_PROJ1_2024-01-02_03-04-05.html'',
             pngFile = ''/work/a.png''\<rparr>"
    by code_simp
  then have h: "?run = (Inr \<lparr>htmlFile = ''/work/output_files/html/jdoe_PROJ1_2024-01-02_03-04-05.html'',
             pngFile = ''/work/a.png''\<rparr>, snd ?run)"
    by (metis prod.collapse)
  have g: "clip_screenshot example_render_env = None"
    "trim_result example_render_env [7, 7, 1, 2, 7] = None"
    by (simp_all add: example_render_env_def)
  from createEvidence_releases_browser[OF h] h g show ?thesis by simp
qed

text \<open>
  C8 as stated does not hold: when the trim throws and the rename throws as well, the rename
  error is ignored, no final image exists and the raw capture stays in the temporary file.
\<close>

theorem trim_and_rename_failure_leaves_no_final_image:
  "trim_result (example_render_env\<lparr>renameSync_ok := False\<rparr>) [7, 7, 1, 2, 7] = None
   \<and> fst (trim_capture (example_render_env\<lparr>renameSync_ok := False\<rparr>)
            ''/work/a.png.tmp.png'' ''/work/a.png'' captured_world) = Inr ()
   \<and> map_of (files (snd (trim_capture (example_render_env\<lparr>renameSync_ok := False\<rparr>)
            ''/work/a.png.tmp.png'' ''/work/a.png'' captured_world))) ''/work/a.png'' = None
   \<and> map_of (files (snd (trim_capture (example_render_env\<lparr>renameSync_ok := False\<rparr>)
            ''/work/a.png.tmp.png'' ''/work/a.png'' captured_world))) ''/work/a.png.tmp.png''
        = Some (Png [7, 7, 1, 2, 7])"
  by code_simp

text \<open>
  C8 (amended). The post-processing of a raw capture never throws. When the trim and the
  removal of the temporary file succeed, the trimmed image is the final file and no
  temporary file remains. When the trim throws and the rename succeeds, the raw capture is
  the final file, byte for byte, and no temporary file remains. When the trim throws and
  the rename throws too, the final path is left as it was and the raw capture stays in the
  temporary file. In every case an image is at the final path or the raw capture is still
  in the temporary file, and no other file is touched.
\<close>

theorem trim_capture_outcome:
  assumes "map_of (files w) tmp = Some (Png rawimg)" and "tmp \<noteq> dest"
    and "trim_capture env tmp dest w = (res, w')"
  shows "res = Inr ()
       \<and> (\<forall>t. trim_result env rawimg = Some t \<and> unlinkSync_ok env \<longrightarrow>
             map_of (files w') dest = Some (Png t) \<and> map_of (files w') tmp = None)
       \<and> (trim_result env rawimg = None \<and> renameSync_ok env \<longrightarrow>
             map_of (files w') dest = Some (Png rawimg) \<and> map_of (files w') tmp = None)
       \<and> (trim_result env rawimg = None \<and> \<not> renameSync_ok env \<longrightarrow>
             map_of (files w') dest = map_of (files w) dest
             \<and> map_of (files w') tmp = Some (Png rawimg))
       \<and> ((\<exists>img. map_of (files w') dest = Some (Png img))
             \<or> map_of (files w') tmp = Some (Png rawimg))
       \<and> (\<forall>p. p \<noteq> dest \<and> p \<noteq> tmp \<longrightarrow> map_of (files w') p = map_of (files w) p)"
  using trim_capture_files[OF assms] by blast

theorem trim_capture_outcome_witness:
  "map_of (files captured_world) ''/work/a.png.tmp.png'' = Some (Png [7, 7, 1, 2, 7])
   \<and> ''/work/a.png.tmp.png'' \<noteq> ''/work/a.png''
   \<and> trim_result example_render_env [7, 7, 1, 2, 7] = None
   \<and> renameSync_ok example_render_env
   \<and> fst (trim_capture example_render_env ''/work/a.png.tmp.png'' ''/work/a.png'' captured_world)
        = Inr ()
   \<and> map_of (files (snd (trim_capture example_render_env ''/work/a.png.tmp.png'' ''/work/a.png''
         captured_world))) ''/work/a.png'' = Some (Png [7, 7, 1, 2, 7])
   \<and> map_of (files (snd (trim_capture example_render_env ''/work/a.png.tmp.png'' ''/work/a.png''
         captured_world))) ''/work/a.png.tmp.png'' = None"
proof -
  let ?run = "trim_capture example_render_env ''/work/a.png.tmp.png'' ''/work/a.png'' captured_world"
  have h1: "map_of (files captured_world) ''/work/a.png.tmp.png'' = Some (Png [7, 7, 1, 2, 7])"
    by (simp add: captured_world_def)
  have h2: "''/work/a.png.tmp.png'' \<noteq> ''/work/a.png''" by simp
  have h3: "?run = (fst ?run, snd ?run)" by simp
  have g: "trim_result example_render_env [7, 7, 1, 2, 7] = None" "renameSync_ok example_render_env"
    by (simp_all add: example_render_env_def)
  from trim_capture_outcome[OF h1 h2 h3] g h1 h2 show ?thesis by simp
qed

section \<open>The per-record pipeline\<close>












section \<open>The two reports\<close>

lemma createDocx_throws:
  "createDocx cfg env dirPath docName w = (Inl e, w') \<Longrightarrow> w' = w \<and> \<not> generate_ok env"
  by (auto simp: createDocx_def Let_def andThen_def writeFileSync_def console_log_def
      split: if_splits prod.splits sum.splits)

lemma generate_reports_cases:
  assumes "createDocx cfg (has_access_docx env) (HAS_ACCESS_PNG_DIR cfg)
             ''Bitbucket_Has_Access_Report.docx'' w = (res, w')"
  shows "generate_reports cfg env w =
           (case res of
              Inl e \<Rightarrow> (Inl e, w')
            | Inr _ \<Rightarrow> createDocx cfg (no_access_docx env) (NO_ACCESS_PNG_DIR cfg)
                         ''Bitbucket_No_Access_Report.docx'' w')"
  using assms by (simp add: generate_reports_def andThen_def split: sum.splits)

lemma main_rows:
  assumes "input_csv env = CsvRows rows"
    and "write_headers cfg env (w\<lparr>console := console w @ [LogReading (INPUT_CSV_PATH cfg)]\<rparr>)
           = (Inr (), wa)"
    and "process_rows cfg rows wa = (Inr (), wb)"
  shows "main cfg env w =
           (case generate_reports cfg env wb of
              (Inl err, wc) \<Rightarrow> (2, wc\<lparr>console := console wc @ [LogFatal err]\<rparr>)
            | (Inr _, wc) \<Rightarrow> (0, wc\<lparr>console := console wc @ [LogDone (OUTPUT_DIR cfg)]\<rparr>))"
  using assms by (simp add: main_def run_batch_def andThen_def Let_def)

text \<open>
  C2 as stated does not hold: with an image in each of the two directories, a failure to
  write the has-access report ends the run with exit code 2, and the no-access report,
  which would have been written, is never attempted.
\<close>

theorem first_report_failure_skips_second_report:
  "fst (createDocx example_cfg (has_access_docx failing_report_env) (HAS_ACCESS_PNG_DIR example_cfg)
          ''Bitbucket_Has_Access_Report.docx'' leftover_world)
     = Inl (IOError ''/work/output_files/doc/Bitbucket_Has_Access_Report.docx'')
   \<and> readdirSync (NO_ACCESS_PNG_DIR example_cfg) leftover_world
        = [''old_PROJ2_2023-12-31_23-59-59.png'']
   \<and> map_of (files (snd (createDocx example_cfg (no_access_docx failing_report_env)
          (NO_ACCESS_PNG_DIR example_cfg) ''Bitbucket_No_Access_Report.docx'' leftover_world)))
        ''/work/output_files/doc/Bitbucket_No_Access_Report.docx''
      = Some (Docx ''Bitbucket_No_Access_Report'' ''2024-01-02 03:04:06''
               [''old_PROJ2_2023-12-31_23-59-59.png''])
   \<and> fst (main example_cfg failing_report_env leftover_world) = 2
   \<and> map_of (files (snd (main example_cfg failing_report_env leftover_world)))
        ''/work/output_files/doc/Bitbucket_No_Access_Report.docx'' = None
   \<and> console (snd (main example_cfg failing_report_env leftover_world))
      = [LogReading ''/work/input_files/access_check_results.csv'',
         LogFatal (IOError ''/work/output_files/doc/Bitbucket_Has_Access_Report.docx'')]"
  by code_simp

text \<open>
  C2 (amended). The two reports are generated one after the other inside the \<open>try\<close> of
  \<open>main\<close>. A failure to write the has-access report ends the run: nothing is written
  after it and the process exits with code 2. The no-access report is attempted exactly
  when the has-access assembly returned normally; a failure to write it also exits with
  code 2, and leaves what the has-access assembly wrote.
\<close>

theorem report_write_failure_ends_run:
  assumes "input_csv env = CsvRows rows"
    and "write_headers cfg env (w\<lparr>console := console w @ [LogReading (INPUT_CSV_PATH cfg)]\<rparr>)
           = (Inr (), wa)"
    and "process_rows cfg rows wa = (Inr (), wb)"
    and "createDocx cfg (has_access_docx env) (HAS_ACCESS_PNG_DIR cfg)
           ''Bitbucket_Has_Access_Report.docx'' wb = (res, wc)"
  shows "(\<forall>e. res = Inl e \<longrightarrow>
            generate_reports cfg env wb = (Inl e, wb)
            \<and> main cfg env w = (2, wb\<lparr>console := console wb @ [LogFatal e]\<rparr>))
       \<and> (res = Inr () \<longrightarrow>
            generate_reports cfg env wb =
              createDocx cfg (no_access_docx env) (NO_ACCESS_PNG_DIR cfg)
                ''Bitbucket_No_Access_Report.docx'' wc)
       \<and> (\<forall>e wd. res = Inr ()
              \<and> createDocx cfg (no_access_docx env) (NO_ACCESS_PNG_DIR cfg)
                   ''Bitbucket_No_Access_Report.docx'' wc = (Inl e, wd) \<longrightarrow>
            main cfg env w = (2, wc\<lparr>console := console wc @ [LogFatal e]\<rparr>))"
proof -
  note g = generate_reports_cases[OF assms(4)]
  note m = main_rows[OF assms(1-3)]
  have a: "generate_reports cfg env wb = (Inl e, wb)
            \<and> main cfg env w = (2, wb\<lparr>console := console wb @ [LogFatal e]\<rparr>)"
    if "res = Inl e" for e
  proof -
    from that assms(4) have "wc = wb" using createDocx_throws by blast
    with that g m show ?thesis by simp
  qed
  have b: "generate_reports cfg env wb =
              createDocx cfg (no_access_docx env) (NO_ACCESS_PNG_DIR cfg)
                ''Bitbucket_No_Access_Report.docx'' wc" if "res = Inr ()"
    using that g by simp
  have c: "main cfg env w = (2, wc\<lparr>console := console wc @ [LogFatal e]\<rparr>)"
    if "res = Inr () \<and> createDocx cfg (no_access_docx env) (NO_ACCESS_PNG_DIR cfg)
                   ''Bitbucket_No_Access_Report.docx'' wc = (Inl e, wd)" for e wd
  proof -
    from that have "wd = wc" using createDocx_throws by blast
    with that b m show ?thesis by simp
  qed
  from a b c show ?thesis by blast
qed

theorem report_write_failure_ends_run_witness:
  "input_csv failing_report_env = CsvRows []
   \<and> fst (write_headers example_cfg failing_report_env
            (leftover_world\<lparr>console := console leftover_world
               @ [LogReading (INPUT_CSV_PATH example_cfg)]\<rparr>)) = Inr ()
   \<and> fst (createDocx example_cfg (has_access_docx failing_report_env)
            (HAS_ACCESS_PNG_DIR example_cfg) ''Bitbucket_Has_Access_Report.docx''
            (snd (write_headers example_cfg failing_report_env
               (leftover_world\<lparr>console := console leftover_world
                  @ [LogReading (INPUT_CSV_PATH example_cfg)]\<rparr>))))
       = Inl (IOError ''/work/output_files/doc/Bitbucket_Has_Access_Report.docx'')
   \<and> main example_cfg failing_report_env leftover_world
       = (2, (snd (write_headers example_cfg failing_report_env
               (leftover_world\<lparr>console := console leftover_world
                  @ [LogReading (INPUT_CSV_PATH example_cfg)]\<rparr>)))
              \<lparr>console := console (snd (write_headers example_cfg failing_report_env
               (leftover_world\<lparr>console := console leftover_world
                  @ [LogReading (INPUT_CSV_PATH example_cfg)]\<rparr>)))
                 @ [LogFatal (IOError ''/work/output_files/doc/Bitbucket_Has_Access_Report.docx'')]\<rparr>)"
proof -
  let ?w0 = "leftover_world\<lparr>console := console leftover_world
               @ [LogReading (INPUT_CSV_PATH example_cfg)]\<rparr>"
  let ?wa = "snd (write_headers example_cfg failing_report_env ?w0)"
  let ?doc = "createDocx example_cfg (has_access_docx failing_report_env)
            (HAS_ACCESS_PNG_DIR example_cfg) ''Bitbucket_Has_Access_Report.docx'' ?wa"
  have i: "input_csv failing_report_env = CsvRows []"
    by (simp add: failing_report_env_def)
  have f: "fst (write_headers example_cfg failing_report_env ?w0) = Inr ()"
    by code_simp
  then have h: "write_headers example_cfg failing_report_env ?w0 = (Inr (), ?wa)"
    by (metis prod.collapse)
  have r: "process_rows example_cfg [] ?wa = (Inr (), ?wa)"
    by (simp add: ret_def)
  have d: "fst ?doc = Inl (IOError ''/work/output_files/doc/Bitbucket_Has_Access_Report.docx'')"
    by code_simp
  then have dd: "?doc = (Inl (IOError ''/work/output_files/doc/Bitbucket_Has_Access_Report.docx''),
                         snd ?doc)"
    by (metis prod.collapse)
  from report_write_failure_ends_run[OF i h r dd]
  have "main example_cfg failing_report_env leftover_world
          = (2, ?wa\<lparr>console := console ?wa
                @ [LogFatal (IOError ''/work/output_files/doc/Bitbucket_Has_Access_Report.docx'')]\<rparr>)"
    by blast
  with i f d show ?thesis by simp
qed

end
